theory Spec2Isabelle
  imports Complex_Main "HOL-Library.Product_Lexorder"
begin

section \<open>Gift records (the dictionaries built by \<open>_parse_gift\<close> and \<open>_read_file_feed\<close>)\<close>

text \<open>
  Both feed sources build a dictionary with a fixed set of keys. A key whose value may be
  \<open>None\<close> (and \<open>first_sale_date\<close>, \<open>last_sale_date\<close>, which the file feed leaves out, so
  that \<open>.get\<close> returns \<open>None\<close>) is an \<open>option\<close> field. Timestamps are whole seconds on the
  clock of the process, as \<open>int\<close>.
\<close>

record gift =
  gift_id :: int
  title :: string
  stars :: int
  limited :: bool
  sold_out :: bool
  require_premium :: bool
  can_upgrade :: bool
  first_sale_date :: "int option"
  last_sale_date :: "int option"
  availability_remains :: "int option"
  availability_total :: "int option"
  discovered_at :: int

section \<open>gift\_monitor.py: TelegramGiftMonitor\<close>

record monitor =
  last_hash :: int
  known_gifts :: "int \<rightharpoonup> gift"

text \<open>The dictionary returned by \<open>get_star_gifts\<close>: \<open>{'hash': ..., 'gifts': [...]}\<close>.\<close>

record gifts_data =
  snap_hash :: int
  snap_gifts :: "gift list"

text \<open>The second argument of the callback: \<open>'new'\<close> or \<open>'updated'\<close>.\<close>

datatype event_type = New | Updated

text \<open>\<open>_gift_changed\<close>: any of \<open>sold_out\<close>, \<open>availability_remains\<close>, \<open>stars\<close> differs.\<close>

definition gift_changed :: "gift \<Rightarrow> gift \<Rightarrow> bool" where
  "gift_changed old_gift new_gift \<longleftrightarrow>
     sold_out old_gift \<noteq> sold_out new_gift \<or>
     availability_remains old_gift \<noteq> availability_remains new_gift \<or>
     stars old_gift \<noteq> stars new_gift"

text \<open>\<open>_should_notify\<close>: only limited gifts that are not sold out and cost something.\<close>

definition should_notify :: "gift \<Rightarrow> bool" where
  "should_notify g \<longleftrightarrow> limited g \<and> \<not> sold_out g \<and> stars g > 0"

text \<open>
  The \<open>for gift in gifts_data['gifts']\<close> loop of \<open>_check_for_new_gifts\<close>. The accumulator
  is \<open>(known_gifts, new_gifts, updated_gifts)\<close>; the table is updated inside the loop, so
  a later item of the same snapshot is compared with what an earlier one stored.
\<close>

fun diff_loop ::
  "gift list \<Rightarrow> (int \<rightharpoonup> gift) \<times> gift list \<times> gift list \<Rightarrow>
   (int \<rightharpoonup> gift) \<times> gift list \<times> gift list" where
  "diff_loop [] acc = acc"
| "diff_loop (g # gs) (known, new_gifts, updated_gifts) =
     (case known (gift_id g) of
        None \<Rightarrow> diff_loop gs (known(gift_id g \<mapsto> g), new_gifts @ [g], updated_gifts)
      | Some old \<Rightarrow>
          if gift_changed old g
          then diff_loop gs (known(gift_id g \<mapsto> g), new_gifts, updated_gifts @ [g])
          else diff_loop gs (known, new_gifts, updated_gifts))"

text \<open>
  \<open>_check_for_new_gifts\<close>. The result of \<open>get_star_gifts\<close> is the argument (\<open>None\<close> when the
  feed failed or was empty); \<open>callback\<close> says whether a callback function was passed. The
  second component of the result is the list of callback invocations, in order.
\<close>

definition check_for_new_gifts ::
  "bool \<Rightarrow> gifts_data option \<Rightarrow> monitor \<Rightarrow> monitor \<times> (gift \<times> event_type) list" where
  "check_for_new_gifts callback fetched m =
     (case fetched of
        None \<Rightarrow> (m, [])
      | Some d \<Rightarrow>
          if snap_hash d \<noteq> last_hash m then
            (case diff_loop (snap_gifts d) (known_gifts m, [], []) of
               (known, new_gifts, updated_gifts) \<Rightarrow>
                 (m\<lparr>last_hash := snap_hash d, known_gifts := known\<rparr>,
                  if callback
                  then map (\<lambda>g. (g, New)) (filter should_notify new_gifts) @
                       map (\<lambda>g. (g, Updated)) (filter should_notify updated_gifts)
                  else []))
          else (m, []))"

section \<open>What the model takes from the Python interpreter\<close>

text \<open>
  Python strings are kept as the bytes of their UTF-8 encoding, so that one string is a
  contiguous piece of another exactly when its bytes are. Two things are the
  interpreter's and not the repository's, and are parameters of the model:
  \<open>str.lower\<close>, the Unicode lower-casing of a string, and the limit of
  \<open>sys.get_int_max_str_digits()\<close> on the number of decimal digits of an integer that is
  converted to text (4300 by default in the interpreters that have the limit; 0 means
  that there is no limit).
\<close>

record interpreter =
  str_lower :: "string \<Rightarrow> string"
  int_max_str_digits :: nat

datatype py_error =
  KeyError string | ZeroDivisionError | TypeError | OverflowError | ValueError

text \<open>
  Converting an integer to decimal text (\<open>str\<close>, an f-string, \<open>format\<close>) raises
  \<open>ValueError\<close> when it has more digits than the limit.
\<close>

definition str_int_ok :: "interpreter \<Rightarrow> int \<Rightarrow> bool" where
  "str_int_ok py n = (int_max_str_digits py = 0 \<or> \<bar>n\<bar> < 10 ^ int_max_str_digits py)"

text \<open>
  A number is too large for a float when, rounded to 53 significant bits (ties to even),
  it reaches \<open>2 ^ 1024\<close>: that is from \<open>2 ^ 1024 - 2 ^ 970\<close> on.
\<close>

definition float_overflow :: "rat \<Rightarrow> bool" where
  "float_overflow q = (2 ^ 1024 - 2 ^ 970 \<le> \<bar>q\<bar>)"

section \<open>Rendering: the availability line\<close>

text \<open>Python truthiness of an optional integer: \<open>None\<close> and \<open>0\<close> are false.\<close>

definition truthy :: "int option \<Rightarrow> bool" where
  "truthy v = (case v of None \<Rightarrow> False | Some n \<Rightarrow> n \<noteq> 0)"

text \<open>
  \<open>a / b\<close> on integers raises \<open>ZeroDivisionError\<close> for \<open>b = 0\<close> and \<open>OverflowError\<close> when
  the quotient is too large for a float. Otherwise the result is the float nearest to
  the quotient; the model keeps the quotient itself.
\<close>

definition py_truediv :: "int \<Rightarrow> int \<Rightarrow> py_error + rat" where
  "py_truediv a b =
     (if b = 0 then Inl ZeroDivisionError
      else if float_overflow (of_int a / of_int b) then Inl OverflowError
      else Inr (of_int a / of_int b))"

text \<open>
  The availability line: absent (the empty string), or the text built from remaining,
  total and the percentage. The percentage is a float computed from the two counts
  (a float product does not raise, and neither does its formatting); its value is not
  modelled, so the line is identified by the two counts.
\<close>

datatype availability = NoAvailability | Availability int int

text \<open>
  \<open>remaining = data[k]; total = data[k']; percentage = (remaining / total) * 100\<close> and
  the f-string built from the three. A \<open>None\<close> operand of \<open>/\<close> raises \<open>TypeError\<close>; the
  f-string converts the two counts to text.
\<close>

definition availability_line ::
  "interpreter \<Rightarrow> int option \<Rightarrow> int option \<Rightarrow> py_error + availability" where
  "availability_line py remaining tot =
     (case (remaining, tot) of
        (Some r, Some t) \<Rightarrow>
          (case py_truediv r t of
             Inl e \<Rightarrow> Inl e
           | Inr q \<Rightarrow>
               if str_int_ok py r \<and> str_int_ok py t then Inr (Availability r t)
               else Inl ValueError)
      | _ \<Rightarrow> Inl TypeError)"

text \<open>The \<open># Availability info\<close> block of \<open>_generate_message\<close> (notification\_engine.py).\<close>

definition availability_info :: "interpreter \<Rightarrow> gift \<Rightarrow> py_error + availability" where
  "availability_info py data =
     (if truthy (availability_remains data) \<and> truthy (availability_total data)
      then availability_line py (availability_remains data) (availability_total data)
      else Inr NoAvailability)"

text \<open>The same block of \<open>GiftNotificationFormatter.format_new_gift\<close> (gift\_monitor.py).\<close>

definition availability_percent :: "interpreter \<Rightarrow> gift \<Rightarrow> py_error + availability" where
  "availability_percent py g =
     (if truthy (availability_remains g) \<and> truthy (availability_total g)
      then availability_line py (availability_remains g) (availability_total g)
      else Inr NoAvailability)"

section \<open>notification\_engine.py: templates and \<open>_generate_message\<close>\<close>

datatype NotificationPriority = LOW | NORMAL | HIGH | URGENT

fun priority_value :: "NotificationPriority \<Rightarrow> int" where
  "priority_value LOW = 1"
| "priority_value NORMAL = 2"
| "priority_value HIGH = 3"
| "priority_value URGENT = 4"

datatype NotificationType =
  NEW_GIFT | GIFT_UPDATE | PRICE_DROP | LIMITED_AVAILABLE | SYSTEM_ALERT | PROMOTION

text \<open>
  A value substituted for a placeholder: an integer, a boolean, a string, an optional
  integer, a \<open>datetime\<close> object, and three kinds of strings that the code builds:
  \<open>VYesNo\<close> stands for the two fixed yes/no texts, \<open>VTime\<close> for a clock reading
  formatted by \<open>strftime\<close>, \<open>VAvail\<close> for the availability line.
\<close>

datatype fmt_value =
  VInt int | VBool bool | VStr string | VOpt "int option" | VDate int
| VYesNo bool | VTime int | VAvail availability

text \<open>
  The format specifications that occur in the templates: none (\<open>{title}\<close>), a thousands
  separator (\<open>{stars:,}\<close>), one decimal (\<open>{percentage:.1f}\<close>).
\<close>

datatype fmt_spec = Plain | Thousands | Fixed1

text \<open>
  A template is kept as the placeholders of its message with their format
  specifications, in order of appearance; the literal text between them plays no part
  in what follows.
\<close>

record NotificationTemplate =
  placeholders :: "(string \<times> fmt_spec) list"
  template_priority :: NotificationPriority
  has_buttons :: bool

text \<open>\<open>load_notification_templates\<close>: three kinds have a template, the others none.\<close>

fun templates :: "NotificationType \<Rightarrow> NotificationTemplate option" where
  "templates NEW_GIFT = Some
     \<lparr>placeholders = [(''title'', Plain), (''id'', Plain), (''stars'', Thousands),
        (''limited'', Plain), (''premium_required'', Plain), (''upgradeable'', Plain),
        (''availability_info'', Plain), (''discovery_time'', Plain)],
      template_priority = HIGH, has_buttons = True\<rparr>"
| "templates PRICE_DROP = Some
     \<lparr>placeholders = [(''title'', Plain), (''id'', Plain), (''old_price'', Thousands),
        (''new_price'', Thousands), (''savings'', Thousands), (''savings_percent'', Fixed1),
        (''update_time'', Plain)],
      template_priority = URGENT, has_buttons = True\<rparr>"
| "templates LIMITED_AVAILABLE = Some
     \<lparr>placeholders = [(''title'', Plain), (''remaining'', Plain), (''total'', Plain),
        (''percentage'', Fixed1), (''stars'', Thousands), (''remaining'', Plain)],
      template_priority = URGENT, has_buttons = True\<rparr>"
| "templates _ = None"

text \<open>The items of the gift dictionary.\<close>

definition gift_items :: "gift \<Rightarrow> (string \<times> fmt_value) list" where
  "gift_items g =
     [(''id'', VInt (gift_id g)), (''title'', VStr (title g)), (''stars'', VInt (stars g)),
      (''limited'', VBool (limited g)), (''sold_out'', VBool (sold_out g)),
      (''require_premium'', VBool (require_premium g)),
      (''can_upgrade'', VBool (can_upgrade g)),
      (''first_sale_date'', VOpt (first_sale_date g)),
      (''last_sale_date'', VOpt (last_sale_date g)),
      (''availability_remains'', VOpt (availability_remains g)),
      (''availability_total'', VOpt (availability_total g)),
      (''discovered_at'', VDate (discovered_at g))]"

text \<open>
  \<open>format_data\<close>: a copy of the gift dictionary, updated with the helper fields (an
  update replaces the value of a key that is already there, so the helpers come first
  in the association list).
\<close>

definition format_data :: "int \<Rightarrow> gift \<Rightarrow> availability \<Rightarrow> string \<rightharpoonup> fmt_value" where
  "format_data now data avail =
     map_of ([(''limited'', VYesNo (limited data)),
              (''premium_required'', VYesNo (require_premium data)),
              (''upgradeable'', VYesNo (can_upgrade data)),
              (''discovery_time'', VTime now), (''update_time'', VTime now),
              (''availability_info'', VAvail avail)] @ gift_items data)"

text \<open>
  Formatting one value under a specification; \<open>None\<close> when it succeeds. An integer is
  converted to decimal text (or, for one decimal, to a float first); a boolean is
  formatted as an integer when there is a specification; \<open>None\<close> and strings accept no
  specification; a \<open>datetime\<close> takes any specification as a \<open>strftime\<close> pattern.
\<close>

fun format_field :: "interpreter \<Rightarrow> fmt_spec \<Rightarrow> fmt_value \<Rightarrow> py_error option" where
  "format_field py Plain (VInt n) = (if str_int_ok py n then None else Some ValueError)"
| "format_field py Plain (VOpt (Some n)) = (if str_int_ok py n then None else Some ValueError)"
| "format_field py Plain v = None"
| "format_field py Thousands (VInt n) = (if str_int_ok py n then None else Some ValueError)"
| "format_field py Thousands (VOpt (Some n)) =
     (if str_int_ok py n then None else Some ValueError)"
| "format_field py Fixed1 (VInt n) =
     (if float_overflow (of_int n) then Some OverflowError else None)"
| "format_field py Fixed1 (VOpt (Some n)) =
     (if float_overflow (of_int n) then Some OverflowError else None)"
| "format_field py spec (VOpt None) = Some TypeError"
| "format_field py spec (VBool b) = None"
| "format_field py spec (VDate t) = None"
| "format_field py spec v = Some ValueError"

text \<open>
  \<open>str.format(**format_data)\<close> goes through the placeholders from left to right: a
  placeholder without a value raises \<open>KeyError\<close>, and a value that cannot be formatted
  raises as above.
\<close>

fun format_message ::
  "interpreter \<Rightarrow> (string \<times> fmt_spec) list \<Rightarrow> (string \<rightharpoonup> fmt_value) \<Rightarrow>
   py_error + (string \<times> fmt_value) list" where
  "format_message py [] fd = Inr []"
| "format_message py ((k, spec) # ks) fd =
     (case fd k of
        None \<Rightarrow> Inl (KeyError k)
      | Some v \<Rightarrow>
          (case format_field py spec v of
             Some e \<Rightarrow> Inl e
           | None \<Rightarrow>
               (case format_message py ks fd of
                  Inl e \<Rightarrow> Inl e
                | Inr r \<Rightarrow> Inr ((k, v) # r))))"

text \<open>
  What \<open>_generate_message\<close> returns: the formatted template, the text naming the missing
  field (\<open>except KeyError\<close>), or the generic error text (\<open>except Exception\<close>).
\<close>

datatype rendered = Rendered "(string \<times> fmt_value) list" | KeyErrorText string | ErrorText

definition error_text :: "py_error \<Rightarrow> rendered" where
  "error_text e = (case e of KeyError k \<Rightarrow> KeyErrorText k | _ \<Rightarrow> ErrorText)"

definition generate_message ::
  "interpreter \<Rightarrow> int \<Rightarrow> NotificationTemplate \<Rightarrow> gift \<Rightarrow> rendered" where
  "generate_message py now template data =
     (case availability_info py data of
        Inl e \<Rightarrow> error_text e
      | Inr avail \<Rightarrow>
          (case format_message py (placeholders template) (format_data now data avail) of
             Inl e \<Rightarrow> error_text e
           | Inr out \<Rightarrow> Rendered out))"

section \<open>notification\_engine.py: filters, jobs and the engine state\<close>

text \<open>
  \<open>filter_keywords\<close> is the field \<open>keywords\<close> (a reserved word here); it and
  \<open>excluded_keywords\<close> default to \<open>None\<close>. \<open>time_restrictions\<close> is the
  \<open>allowed_hours\<close> list of the dictionary; \<open>None\<close> stands for no dictionary, an empty one,
  or one without that key, which the code treats alike.
\<close>

record NotificationFilter =
  min_stars :: int
  max_stars :: int
  only_limited :: bool
  only_premium :: bool
  exclude_premium_required :: bool
  filter_keywords :: "string list option"
  excluded_keywords :: "string list option"
  time_restrictions :: "int list option"

text \<open>
  The job identifier is the MD5 digest of user id, kind and clock reading; the model
  keeps the three digested values. The inline buttons are left out.
\<close>

record NotificationJob =
  job_id :: "int \<times> NotificationType \<times> int"
  user_id :: int
  message :: rendered
  notification_type :: NotificationType
  priority :: NotificationPriority
  created_at :: int
  scheduled_at :: int
  attempts :: int
  max_attempts :: int
  metadata :: gift

text \<open>A row of the \<open>users\<close> table, with the columns the engine reads or writes.\<close>

record User =
  u_user_id :: int
  u_notifications_enabled :: bool
  u_min_stars :: int
  u_max_stars :: int
  u_only_limited :: bool

text \<open>An entry of \<open>notification_history[user_id]\<close>.\<close>

record history_entry =
  h_type :: NotificationType
  h_timestamp :: int
  h_job_id :: "int \<times> NotificationType \<times> int"

text \<open>
  Jobs are mutable objects, and the queue is a list of references to them: the same
  object can be in the list twice, and \<open>requeue_job\<close> mutates an object that may still be
  in the list. So the state has a store \<open>heap\<close> from references to job objects
  (\<open>next_ref\<close> is the next unused reference) and \<open>queue\<close> is a list of references.
  The fields of \<open>NotificationQueue\<close> (\<open>queue\<close>, \<open>processing\<close>, the counters of \<open>stats\<close>) and
  of \<open>SmartNotificationEngine\<close> are in one record; \<open>users\<close> is the table of the external
  database.
\<close>

record engine =
  heap :: "nat \<Rightarrow> NotificationJob"
  next_ref :: nat
  queue :: "nat list"
  processing :: bool
  total_queued :: int
  total_sent :: int
  total_failed :: int
  messages_per_minute :: int
  sent_messages :: "int list"
  filters :: "int \<rightharpoonup> NotificationFilter"
  notification_history :: "int \<rightharpoonup> history_entry list"
  users :: "User list"

section \<open>NotificationQueue\<close>

text \<open>
  \<open>list.sort(key=..., reverse=True)\<close> is a stable sort in descending order of the key:
  elements with equal keys keep their order.
\<close>

definition py_sort_reverse :: "('a \<Rightarrow> 'k::linorder) \<Rightarrow> 'a list \<Rightarrow> 'a list" where
  "py_sort_reverse key xs = rev (sort_key key (rev xs))"

text \<open>The sort key of \<open>add_job\<close>: \<open>(x.priority.value, x.created_at)\<close>, compared as a tuple.\<close>

definition job_key :: "(nat \<Rightarrow> NotificationJob) \<Rightarrow> nat \<Rightarrow> int \<times> int" where
  "job_key h r = (priority_value (priority (h r)), created_at (h r))"

definition add_job :: "nat \<Rightarrow> engine \<Rightarrow> engine" where
  "add_job r s =
     s\<lparr>queue := py_sort_reverse (job_key (heap s)) (queue s @ [r]),
       total_queued := total_queued s + 1\<rparr>"

text \<open>The test of \<open>get_next_job\<close> on a queued job.\<close>

definition eligible :: "int \<Rightarrow> NotificationJob \<Rightarrow> bool" where
  "eligible now job \<longleftrightarrow> scheduled_at job \<le> now \<and> attempts job < max_attempts job"

text \<open>The scan of \<open>get_next_job\<close>: pop the first element that passes the test.\<close>

fun pop_first :: "('a \<Rightarrow> bool) \<Rightarrow> 'a list \<Rightarrow> ('a \<times> 'a list) option" where
  "pop_first P [] = None"
| "pop_first P (x # xs) =
     (if P x then Some (x, xs)
      else (case pop_first P xs of None \<Rightarrow> None | Some (y, ys) \<Rightarrow> Some (y, x # ys)))"

definition get_next_job :: "int \<Rightarrow> engine \<Rightarrow> nat option \<times> engine" where
  "get_next_job now s =
     (case pop_first (\<lambda>r. eligible now (heap s r)) (queue s) of
        None \<Rightarrow> (None, s)
      | Some (r, rest) \<Rightarrow> (Some r, s\<lparr>queue := rest\<rparr>))"

definition requeue_job :: "nat \<Rightarrow> int \<Rightarrow> int \<Rightarrow> engine \<Rightarrow> engine" where
  "requeue_job r delay_seconds now s =
     (let job = (heap s r)\<lparr>attempts := attempts (heap s r) + 1,
                           scheduled_at := now + delay_seconds\<rparr>;
          s1 = s\<lparr>heap := (heap s)(r := job)\<rparr>
      in if attempts job < max_attempts job then add_job r s1
         else s1\<lparr>total_failed := total_failed s1 + 1\<rparr>)"

section \<open>SmartNotificationEngine: the filter\<close>

text \<open>\<open>kw in t\<close> on strings: \<open>kw\<close> occurs in \<open>t\<close> as a contiguous piece.\<close>

fun contains :: "string \<Rightarrow> string \<Rightarrow> bool" where
  "contains kw [] = (kw = [])"
| "contains kw (c # cs) = (take (length kw) (c # cs) = kw \<or> contains kw cs)"

text \<open>The \<open>limits\<close> dictionary of \<open>_check_notification_frequency\<close>, with its default 5.\<close>

fun hourly_limit :: "NotificationType \<Rightarrow> int" where
  "hourly_limit NEW_GIFT = 10"
| "hourly_limit PRICE_DROP = 5"
| "hourly_limit LIMITED_AVAILABLE = 3"
| "hourly_limit SYSTEM_ALERT = 2"
| "hourly_limit _ = 5"

definition history_of :: "engine \<Rightarrow> int \<Rightarrow> history_entry list" where
  "history_of s uid = (case notification_history s uid of None \<Rightarrow> [] | Some h \<Rightarrow> h)"

text \<open>
  \<open>_check_notification_frequency\<close>: drops the entries older than one hour, stores the
  pruned list back, and compares the number of entries of the same kind with the limit.
\<close>

definition check_notification_frequency ::
  "int \<Rightarrow> NotificationType \<Rightarrow> int \<Rightarrow> engine \<Rightarrow> bool \<times> engine" where
  "check_notification_frequency uid ntype now s =
     (let user_history = filter (\<lambda>n. now - h_timestamp n < 3600) (history_of s uid);
          s1 = s\<lparr>notification_history := (notification_history s)(uid \<mapsto> user_history)\<rparr>;
          same_type_count = int (length (filter (\<lambda>n. h_type n = ntype) user_history))
      in (same_type_count < hourly_limit ntype, s1))"

definition keywords_reject :: "interpreter \<Rightarrow> NotificationFilter \<Rightarrow> gift \<Rightarrow> bool" where
  "keywords_reject py f data =
     (case filter_keywords f of
        None \<Rightarrow> False
      | Some kws \<Rightarrow>
          kws \<noteq> [] \<and> \<not> list_ex (\<lambda>keyword. contains (str_lower py keyword) (str_lower py (title data))) kws)"

definition excluded_reject :: "interpreter \<Rightarrow> NotificationFilter \<Rightarrow> gift \<Rightarrow> bool" where
  "excluded_reject py f data =
     (case excluded_keywords f of
        None \<Rightarrow> False
      | Some kws \<Rightarrow>
          kws \<noteq> [] \<and> list_ex (\<lambda>keyword. contains (str_lower py keyword) (str_lower py (title data))) kws)"

text \<open>The hour of the day of a clock reading.\<close>

definition hour_of :: "int \<Rightarrow> int" where
  "hour_of now = (now div 3600) mod 24"

definition time_reject :: "NotificationFilter \<Rightarrow> int \<Rightarrow> bool" where
  "time_reject f now =
     (case time_restrictions f of
        None \<Rightarrow> False
      | Some allowed_hours \<Rightarrow> allowed_hours \<noteq> [] \<and> \<not> List.member allowed_hours (hour_of now))"

definition should_notify_user ::
  "interpreter \<Rightarrow> int \<Rightarrow> gift \<Rightarrow> NotificationType \<Rightarrow> int \<Rightarrow> engine \<Rightarrow> bool \<times> engine" where
  "should_notify_user py uid gift_data ntype now s =
     (case filters s uid of
        None \<Rightarrow> (False, s)
      | Some user_filter \<Rightarrow>
          if stars gift_data < min_stars user_filter \<or> stars gift_data > max_stars user_filter
          then (False, s)
          else if only_limited user_filter \<and> \<not> limited gift_data then (False, s)
          else if exclude_premium_required user_filter \<and> require_premium gift_data
          then (False, s)
          else if keywords_reject py user_filter gift_data then (False, s)
          else if excluded_reject py user_filter gift_data then (False, s)
          else if time_reject user_filter now then (False, s)
          else check_notification_frequency uid ntype now s)"

section \<open>SmartNotificationEngine: \<open>create_notification\<close>\<close>

text \<open>The \<open>NotificationJob(...)\<close> constructed for one user.\<close>

definition new_job ::
  "interpreter \<Rightarrow> int \<Rightarrow> gift \<Rightarrow> NotificationType \<Rightarrow> NotificationPriority \<Rightarrow>
   NotificationTemplate \<Rightarrow> int \<Rightarrow> NotificationJob" where
  "new_job py uid gift_data ntype prio template now =
     \<lparr>job_id = (uid, ntype, now), user_id = uid,
      message = generate_message py now template gift_data,
      notification_type = ntype, priority = prio,
      created_at = now, scheduled_at = now,
      attempts = 0, max_attempts = 3, metadata = gift_data\<rparr>"

text \<open>A new object is placed at the next unused reference.\<close>

definition allocate :: "NotificationJob \<Rightarrow> engine \<Rightarrow> nat \<times> engine" where
  "allocate job s = (next_ref s, s\<lparr>heap := (heap s)(next_ref s := job), next_ref := Suc (next_ref s)\<rparr>)"

text \<open>
  The body of the \<open>for user_id in user_ids\<close> loop: a user the filter rejects is skipped;
  for the others a job object is made and passed to \<open>add_job\<close>. The f-string that is
  digested into the job identifier converts the user id to text, which can raise; the
  exception leaves \<open>create_notification\<close>, and what was done before it stays done.
  The accumulator is \<open>(job_ids, state)\<close>; the result is the exception or the job
  identifiers, and the state.
\<close>

fun create_loop ::
  "interpreter \<Rightarrow> int list \<Rightarrow> gift \<Rightarrow> NotificationType \<Rightarrow> NotificationPriority \<Rightarrow>
   NotificationTemplate \<Rightarrow> int \<Rightarrow> (int \<times> NotificationType \<times> int) list \<times> engine \<Rightarrow>
   (py_error + (int \<times> NotificationType \<times> int) list) \<times> engine" where
  "create_loop py [] gift_data ntype prio template now (job_ids, s) = (Inr job_ids, s)"
| "create_loop py (uid # uids) gift_data ntype prio template now (job_ids, s) =
     (case should_notify_user py uid gift_data ntype now s of
        (False, s1) \<Rightarrow> create_loop py uids gift_data ntype prio template now (job_ids, s1)
      | (True, s1) \<Rightarrow>
          if \<not> str_int_ok py uid then (Inl ValueError, s1)
          else
            (case allocate (new_job py uid gift_data ntype prio template now) s1 of
               (r, s2) \<Rightarrow>
                 create_loop py uids gift_data ntype prio template now
                   (job_ids @ [(uid, ntype, now)], add_job r s2)))"

definition create_notification ::
  "interpreter \<Rightarrow> int list \<Rightarrow> gift \<Rightarrow> NotificationType \<Rightarrow> NotificationPriority \<Rightarrow> int \<Rightarrow>
   engine \<Rightarrow> (py_error + (int \<times> NotificationType \<times> int) list) \<times> engine" where
  "create_notification py user_ids gift_data ntype prio now s =
     (case templates ntype of
        None \<Rightarrow> (Inr [], s)
      | Some template \<Rightarrow> create_loop py user_ids gift_data ntype prio template now ([], s))"

section \<open>SmartNotificationEngine: the dispatcher\<close>

text \<open>
  What \<open>client.send_message\<close> does: it returns, or raises one of the exceptions that
  \<open>_send_notification\<close> tells apart.
\<close>

datatype send_result = Ack | FloodWait int | UserIsBlocked | ChatWriteForbidden | OtherError

text \<open>
  \<open>_mark_user_inactive\<close>: the SQL update of the user's row; \<open>db_ok\<close> is false when the
  database raises, which the function swallows.
\<close>

definition mark_user_inactive :: "bool \<Rightarrow> int \<Rightarrow> engine \<Rightarrow> engine" where
  "mark_user_inactive db_ok uid s =
     (if db_ok
      then s\<lparr>users := map (\<lambda>u. if u_user_id u = uid
                                then u\<lparr>u_notifications_enabled := False\<rparr> else u) (users s)\<rparr>
      else s)"

definition check_rate_limits :: "int \<Rightarrow> engine \<Rightarrow> bool \<times> engine" where
  "check_rate_limits now s =
     (let s1 = s\<lparr>sent_messages := filter (\<lambda>msg. now - msg < 60) (sent_messages s)\<rparr>
      in if int (length (sent_messages s1)) \<ge> messages_per_minute s1
         then (False, s1) else (True, s1))"

definition record_notification :: "nat \<Rightarrow> int \<Rightarrow> engine \<Rightarrow> engine" where
  "record_notification r now s =
     (let job = heap s r
      in s\<lparr>notification_history := (notification_history s)
             (user_id job \<mapsto> history_of s (user_id job) @
                [\<lparr>h_type = notification_type job, h_timestamp = now,
                  h_job_id = job_id job\<rparr>])\<rparr>)"

text \<open>\<open>_send_notification\<close>, given what the transport does with this job.\<close>

definition send_notification :: "send_result \<Rightarrow> bool \<Rightarrow> nat \<Rightarrow> int \<Rightarrow> engine \<Rightarrow> bool \<times> engine" where
  "send_notification res db_ok r now s =
     (case res of
        Ack \<Rightarrow> (True, s\<lparr>sent_messages := sent_messages s @ [now]\<rparr>)
      | FloodWait v \<Rightarrow>
          (False, requeue_job r v now
                    (s\<lparr>heap := (heap s)(r := (heap s r)\<lparr>scheduled_at := now + v\<rparr>)\<rparr>))
      | UserIsBlocked \<Rightarrow> (False, mark_user_inactive db_ok (user_id (heap s r)) s)
      | ChatWriteForbidden \<Rightarrow> (False, mark_user_inactive db_ok (user_id (heap s r)) s)
      | OtherError \<Rightarrow> (False, s))"

text \<open>
  \<open>_process_queue\<close>: one step of the dispatcher at clock reading \<open>now\<close>. The second
  component is the call of the transport made in this step, if any: the job and what
  the transport answered.
\<close>

definition process_queue ::
  "send_result \<Rightarrow> bool \<Rightarrow> int \<Rightarrow> engine \<Rightarrow> engine \<times> (nat \<times> send_result) option" where
  "process_queue res db_ok now s =
     (if processing s then (s, None)
      else
        (case check_rate_limits now (s\<lparr>processing := True\<rparr>) of
           (False, s1) \<Rightarrow> (s1\<lparr>processing := False\<rparr>, None)
         | (True, s1) \<Rightarrow>
             (case get_next_job now s1 of
                (None, s2) \<Rightarrow> (s2\<lparr>processing := False\<rparr>, None)
              | (Some r, s2) \<Rightarrow>
                  (case send_notification res db_ok r now s2 of
                     (True, s3) \<Rightarrow>
                       ((record_notification r now
                           (s3\<lparr>total_sent := total_sent s3 + 1\<rparr>))\<lparr>processing := False\<rparr>,
                        Some (r, res))
                   | (False, s3) \<Rightarrow>
                       ((requeue_job r 60 now s3)\<lparr>processing := False\<rparr>,
                        Some (r, res))))))"

section \<open>The engine as constructed, and its executions\<close>

text \<open>\<open>DatabaseManager.get_all_users\<close>: the rows with \<open>notifications_enabled = 1\<close>.\<close>

definition get_all_users :: "User list \<Rightarrow> User list" where
  "get_all_users db = filter u_notifications_enabled db"

definition load_user_filters ::
  "User list \<Rightarrow> (int \<rightharpoonup> NotificationFilter) \<Rightarrow> (int \<rightharpoonup> NotificationFilter)" where
  "load_user_filters db fs =
     fold (\<lambda>u m. m(u_user_id u \<mapsto>
              \<lparr>min_stars = u_min_stars u, max_stars = u_max_stars u,
               only_limited = u_only_limited u, only_premium = False,
               exclude_premium_required = False, filter_keywords = None,
               excluded_keywords = None, time_restrictions = None\<rparr>))
          (get_all_users db) fs"

text \<open>
  \<open>SmartNotificationEngine.__init__\<close>. No job object exists yet; \<open>store\<close> is what the
  unused references hold, and is never read.
\<close>

definition init_engine :: "(nat \<Rightarrow> NotificationJob) \<Rightarrow> User list \<Rightarrow> engine" where
  "init_engine store db =
     \<lparr>heap = store, next_ref = 0, queue = [], processing = False,
      total_queued = 0, total_sent = 0, total_failed = 0,
      messages_per_minute = 20, sent_messages = [],
      filters = load_user_filters db Map.empty,
      notification_history = Map.empty, users = db\<rparr>"

text \<open>
  An execution is a sequence of calls from the two loops: a dispatcher step (with what
  the transport and the database do in it) or a fan-out, each at a clock reading.
\<close>

datatype event =
  Step send_result bool int
| Create "int list" gift NotificationType NotificationPriority int


text \<open>
  Running an execution; the second component collects the calls of the transport, each
  with its clock reading.
\<close>

fun run ::
  "interpreter \<Rightarrow> event list \<Rightarrow> engine \<times> (int \<times> nat \<times> send_result) list \<Rightarrow>
   engine \<times> (int \<times> nat \<times> send_result) list" where
  "run py [] acc = acc"
| "run py (Step res db_ok now # evs) (s, calls) =
     (case process_queue res db_ok now s of
        (s', None) \<Rightarrow> run py evs (s', calls)
      | (s', Some (r, res')) \<Rightarrow> run py evs (s', calls @ [(now, r, res')]))"
| "run py (Create uids g ntype prio now # evs) (s, calls) =
     run py evs (snd (create_notification py uids g ntype prio now s), calls)"

section \<open>Counting sends and deliveries\<close>



text \<open>
  The number that \<open>_check_notification_frequency\<close> compares with the hourly limit: the
  entries of a user's history of one kind that are less than an hour old.
\<close>

definition recent_count :: "engine \<Rightarrow> int \<Rightarrow> NotificationType \<Rightarrow> int \<Rightarrow> nat" where
  "recent_count s uid ntype now =
     length (filter (\<lambda>n. h_type n = ntype)
               (filter (\<lambda>n. now - h_timestamp n < 3600) (history_of s uid)))"

section \<open>Sample values\<close>

text \<open>
  An interpreter with the default limit of 4300 digits; its lower-casing is the one of
  ASCII text, which is how \<open>str.lower\<close> acts on the strings of the samples.
\<close>

definition ascii_lower :: "string \<Rightarrow> string" where
  "ascii_lower t = map (\<lambda>c. let n = (of_char c :: nat)
                             in if 65 \<le> n \<and> n \<le> 90 then char_of (n + 32) else c) t"

definition sample_interpreter :: interpreter where
  "sample_interpreter = \<lparr>str_lower = ascii_lower, int_max_str_digits = 4300\<rparr>"

text \<open>The template of \<open>NotificationType.NEW_GIFT\<close>.\<close>

definition new_gift_template :: NotificationTemplate where
  "new_gift_template =
     \<lparr>placeholders = [(''title'', Plain), (''id'', Plain), (''stars'', Thousands),
        (''limited'', Plain), (''premium_required'', Plain), (''upgradeable'', Plain),
        (''availability_info'', Plain), (''discovery_time'', Plain)],
      template_priority = HIGH, has_buttons = True\<rparr>"

text \<open>The gift of the end-to-end scenario, and variants of it.\<close>

definition golden_star :: gift where
  "golden_star =
     \<lparr>gift_id = 42, title = ''Golden Star'', stars = 500, limited = True, sold_out = False,
      require_premium = False, can_upgrade = False, first_sale_date = None,
      last_sale_date = None, availability_remains = Some 10, availability_total = Some 100,
      discovered_at = 0\<rparr>"

text \<open>A queued job for a user, of a priority, created (and scheduled) at a clock reading.\<close>

definition sample_job :: "int \<Rightarrow> NotificationPriority \<Rightarrow> int \<Rightarrow> NotificationJob" where
  "sample_job uid prio created =
     \<lparr>job_id = (uid, NEW_GIFT, created), user_id = uid, message = ErrorText,
      notification_type = NEW_GIFT, priority = prio, created_at = created,
      scheduled_at = created, attempts = 0, max_attempts = 3, metadata = golden_star\<rparr>"

text \<open>A \<open>users\<close> table: user 1 has notifications enabled, user 2 has not.\<close>

definition sample_users :: "User list" where
  "sample_users =
     [\<lparr>u_user_id = 1, u_notifications_enabled = True, u_min_stars = 0, u_max_stars = 1000,
       u_only_limited = True\<rparr>,
      \<lparr>u_user_id = 2, u_notifications_enabled = False, u_min_stars = 0, u_max_stars = 1000,
       u_only_limited = True\<rparr>]"

definition sample_engine :: engine where
  "sample_engine = init_engine (\<lambda>_. sample_job 0 LOW 0) sample_users"

text \<open>The engine after \<open>add_job\<close> of the given job objects, in order.\<close>

definition engine_with :: "NotificationJob list \<Rightarrow> engine" where
  "engine_with jobs =
     fold (\<lambda>job s. case allocate job s of (r, s1) \<Rightarrow> add_job r s1) jobs sample_engine"

section \<open>Properties of the rendering\<close>

lemma diff_le_abs: "(a::rat) \<le> q \<Longrightarrow> 0 \<le> b \<Longrightarrow> a - b \<le> q"
  by linarith

lemma diff_not_le: "(q::rat) \<le> 1 \<Longrightarrow> b + 2 \<le> a \<Longrightarrow> \<not> a - b \<le> q"
  by linarith

lemma float_overflow_big: "2 ^ 1024 \<le> \<bar>q\<bar> \<Longrightarrow> float_overflow q"
  unfolding float_overflow_def by (rule diff_le_abs) (simp_all del: power_numeral)

lemma two_power_split: "(2::rat) ^ 970 + 2 \<le> 2 ^ 1024"
proof -
  have e: "(2::rat) ^ 1024 = 2 ^ 970 * 2 ^ 54"
    by (simp add: power_add [symmetric] del: power_numeral)
  have b: "(2::rat) ^ 1 \<le> 2 ^ 970" by (rule power_increasing) simp_all
  have c: "(2::rat) ^ 1 \<le> 2 ^ 54" by (rule power_increasing) simp_all
  have p: "(0::rat) \<le> 2 ^ 970" by (rule zero_le_power) simp
  have "(2::rat) ^ 970 * 2 ^ 1 \<le> 2 ^ 970 * 2 ^ 54"
    using c p by (rule mult_left_mono)
  moreover have "\<And>x::rat. 2 ^ 1 \<le> x \<Longrightarrow> x + 2 \<le> x * 2 ^ 1" by simp
  from this[OF b] have "(2::rat) ^ 970 + 2 \<le> 2 ^ 970 * 2 ^ 1" .
  ultimately show ?thesis unfolding e by (rule order_trans[rotated])
qed

lemma float_overflow_small: "\<bar>q\<bar> \<le> 1 \<Longrightarrow> \<not> float_overflow q"
  unfolding float_overflow_def
  by (rule diff_not_le) (simp_all add: two_power_split del: power_numeral)

lemma str_int_ok_sample: "\<bar>n\<bar> < 10 ^ 18 \<Longrightarrow> str_int_ok sample_interpreter n"
proof -
  assume a: "\<bar>n\<bar> < 10 ^ 18"
  have "(10::int) ^ 18 \<le> 10 ^ 4300" by (rule power_increasing) simp_all
  with a have "\<bar>n\<bar> < 10 ^ 4300" by (rule less_le_trans)
  then show ?thesis by (simp add: str_int_ok_def sample_interpreter_def del: power_numeral)
qed

lemma availability_line_nonzero:
  "t \<noteq> 0 \<Longrightarrow>
   availability_line py (Some r) (Some t) =
     (if float_overflow (of_int r / of_int t) then Inl OverflowError
      else if str_int_ok py r \<and> str_int_ok py t then Inr (Availability r t)
      else Inl ValueError)"
  by (simp add: availability_line_def py_truediv_def)

lemma availability_info_cases:
  "availability_info py data =
     (case (availability_remains data, availability_total data) of
        (Some r, Some t) \<Rightarrow>
          if r \<noteq> 0 \<and> t \<noteq> 0
          then (if float_overflow (of_int r / of_int t) then Inl OverflowError
                else if str_int_ok py r \<and> str_int_ok py t then Inr (Availability r t)
                else Inl ValueError)
          else Inr NoAvailability
      | _ \<Rightarrow> Inr NoAvailability)"
  by (simp add: availability_info_def truthy_def availability_line_nonzero
      split: option.splits)

lemma availability_percent_eq: "availability_percent py g = availability_info py g"
  by (simp add: availability_percent_def availability_info_def)

lemma availability_info_error:
  "availability_info py data = Inl e \<Longrightarrow> e = OverflowError \<or> e = ValueError"
  by (simp add: availability_info_cases split: option.splits if_splits)

lemma generate_message_error:
  "availability_info py data = Inl e \<Longrightarrow> generate_message py now template data = ErrorText"
  using availability_info_error[of py data e]
  by (auto simp: generate_message_def error_text_def)

lemma generate_message_new_gift:
  "availability_info py data = Inr a \<Longrightarrow> str_int_ok py (gift_id data) \<Longrightarrow>
   str_int_ok py (stars data) \<Longrightarrow>
   generate_message py now new_gift_template data =
     Rendered [(''title'', VStr (title data)), (''id'', VInt (gift_id data)),
       (''stars'', VInt (stars data)), (''limited'', VYesNo (limited data)),
       (''premium_required'', VYesNo (require_premium data)),
       (''upgradeable'', VYesNo (can_upgrade data)),
       (''availability_info'', VAvail a), (''discovery_time'', VTime now)]"
  by (simp add: generate_message_def new_gift_template_def format_data_def gift_items_def)

text \<open>
  C10, as stated, fails. A gift whose remaining count is \<open>2 ^ 1024\<close> and whose total is 1
  passes the guard of both renderers, and the division raises \<open>OverflowError\<close>:
  \<open>_generate_message\<close> returns its generic error text for the new-gift template and
  \<open>format_new_gift\<close> raises, so rendering is not total in the availability fields.
\<close>

theorem availability_overflow_raises:
  "availability_info sample_interpreter
     (golden_star\<lparr>availability_remains := Some (2 ^ 1024), availability_total := Some 1\<rparr>) =
     Inl OverflowError \<and>
   availability_percent sample_interpreter
     (golden_star\<lparr>availability_remains := Some (2 ^ 1024), availability_total := Some 1\<rparr>) =
     Inl OverflowError \<and>
   templates NEW_GIFT = Some new_gift_template \<and>
   generate_message sample_interpreter 0 new_gift_template
     (golden_star\<lparr>availability_remains := Some (2 ^ 1024), availability_total := Some 1\<rparr>) =
     ErrorText"
  by (simp add: availability_info_def availability_percent_def truthy_def
      availability_line_def py_truediv_def float_overflow_big golden_star_def
      generate_message_def error_text_def new_gift_template_def)

text \<open>
  C10, amended. For every gift record both renderers behave alike on the availability
  fields. The percentage is computed only when \<open>availability_remains\<close> and
  \<open>availability_total\<close> are both present and non-zero; in every other case, in
  particular when either is 0, the availability line is omitted and nothing is raised,
  so rendering never divides by zero. When both are present and non-zero, the line
  with the two counts is rendered unless the quotient is too large for a float
  (\<open>OverflowError\<close>) or a count has more digits than the interpreter converts to text
  (\<open>ValueError\<close>); on such an error \<open>_generate_message\<close> returns its generic error text.
  Otherwise, for a gift whose id and price can be converted to text, the new-gift
  template is rendered with that availability line (or the empty one) in its
  \<open>availability_info\<close> placeholder.
\<close>

theorem availability_rendering:
  "availability_percent py data = availability_info py data \<and>
   availability_info py data \<noteq> Inl ZeroDivisionError \<and>
   (availability_remains data = None \<or> availability_remains data = Some 0 \<or>
    availability_total data = None \<or> availability_total data = Some 0 \<longrightarrow>
      availability_info py data = Inr NoAvailability) \<and>
   (\<forall>r t. availability_remains data = Some r \<and> availability_total data = Some t \<and>
          r \<noteq> 0 \<and> t \<noteq> 0 \<longrightarrow>
      availability_info py data =
        (if float_overflow (of_int r / of_int t) then Inl OverflowError
         else if str_int_ok py r \<and> str_int_ok py t then Inr (Availability r t)
         else Inl ValueError)) \<and>
   (\<forall>e. availability_info py data = Inl e \<longrightarrow>
      generate_message py now template data = ErrorText) \<and>
   (\<forall>a. availability_info py data = Inr a \<and> str_int_ok py (gift_id data) \<and>
        str_int_ok py (stars data) \<longrightarrow>
      generate_message py now new_gift_template data =
        Rendered [(''title'', VStr (title data)), (''id'', VInt (gift_id data)),
          (''stars'', VInt (stars data)), (''limited'', VYesNo (limited data)),
          (''premium_required'', VYesNo (require_premium data)),
          (''upgradeable'', VYesNo (can_upgrade data)),
          (''availability_info'', VAvail a), (''discovery_time'', VTime now)])"
proof -
  have 1: "availability_info py data \<noteq> Inl ZeroDivisionError"
    using availability_info_error[of py data ZeroDivisionError] by auto
  have 2: "availability_remains data = None \<or> availability_remains data = Some 0 \<or>
    availability_total data = None \<or> availability_total data = Some 0 \<longrightarrow>
      availability_info py data = Inr NoAvailability"
    by (auto simp: availability_info_cases split: option.splits)
  have 3: "\<forall>r t. availability_remains data = Some r \<and> availability_total data = Some t \<and>
          r \<noteq> 0 \<and> t \<noteq> 0 \<longrightarrow>
      availability_info py data =
        (if float_overflow (of_int r / of_int t) then Inl OverflowError
         else if str_int_ok py r \<and> str_int_ok py t then Inr (Availability r t)
         else Inl ValueError)"
    by (simp add: availability_info_cases)
  show ?thesis
    using 1 2 3 availability_percent_eq[of py data] generate_message_error[of py data _ now template]
      generate_message_new_gift[of py data _ now]
    by blast
qed

theorem availability_rendering_witness:
  "availability_info sample_interpreter (golden_star\<lparr>availability_total := Some 0\<rparr>) =
     Inr NoAvailability \<and>
   availability_percent sample_interpreter (golden_star\<lparr>availability_remains := Some 0\<rparr>) =
     Inr NoAvailability \<and>
   availability_info sample_interpreter golden_star = Inr (Availability 10 100) \<and>
   generate_message sample_interpreter 7 new_gift_template golden_star =
     Rendered [(''title'', VStr ''Golden Star''), (''id'', VInt 42), (''stars'', VInt 500),
       (''limited'', VYesNo True), (''premium_required'', VYesNo False),
       (''upgradeable'', VYesNo False), (''availability_info'', VAvail (Availability 10 100)),
       (''discovery_time'', VTime 7)] \<and>
   generate_message sample_interpreter 7 new_gift_template
     (golden_star\<lparr>availability_remains := Some (2 ^ 1024), availability_total := Some 1\<rparr>) =
     ErrorText"
  using availability_rendering
          [of sample_interpreter "golden_star\<lparr>availability_total := Some 0\<rparr>" 0 new_gift_template]
        availability_rendering
          [of sample_interpreter "golden_star\<lparr>availability_remains := Some 0\<rparr>" 0 new_gift_template]
        availability_rendering [of sample_interpreter golden_star 7 new_gift_template]
        availability_rendering
          [of sample_interpreter
             "golden_star\<lparr>availability_remains := Some (2 ^ 1024), availability_total := Some 1\<rparr>" 7
             new_gift_template]
  by (simp add: golden_star_def str_int_ok_sample float_overflow_small float_overflow_big)

section \<open>Properties of the change detector\<close>

lemma check_same_token:
  "snap_hash d = last_hash m \<Longrightarrow> check_for_new_gifts callback (Some d) m = (m, [])"
  by (simp add: check_for_new_gifts_def)

lemma check_sets_token:
  "last_hash (fst (check_for_new_gifts callback (Some d) m)) = snap_hash d"
  by (simp add: check_for_new_gifts_def split: prod.splits)

text \<open>
  C7. Diffing is idempotent: processing the same snapshot (same change-token, same item
  records) a second time right after the first invokes the callback for no gift and
  leaves the monitor (token and known-gift table) as it is; and whenever the token of a
  snapshot equals the stored token, the diff is skipped, no event is emitted and the
  state is unchanged.
\<close>

theorem diff_idempotent:
  "check_for_new_gifts callback (Some d) (fst (check_for_new_gifts callback (Some d) m)) =
     (fst (check_for_new_gifts callback (Some d) m), []) \<and>
   (snap_hash d = last_hash m \<longrightarrow> check_for_new_gifts callback (Some d) m = (m, []))"
  using check_sets_token[of callback d m]
  by (simp add: check_same_token)

theorem diff_idempotent_witness:
  "check_for_new_gifts True (Some \<lparr>snap_hash = 7, snap_gifts = [golden_star]\<rparr>)
     \<lparr>last_hash = 7, known_gifts = Map.empty\<rparr> =
   (\<lparr>last_hash = 7, known_gifts = Map.empty\<rparr>, []) \<and>
   snd (check_for_new_gifts True (Some \<lparr>snap_hash = 8, snap_gifts = [golden_star]\<rparr>)
          (fst (check_for_new_gifts True (Some \<lparr>snap_hash = 8, snap_gifts = [golden_star]\<rparr>)
                  \<lparr>last_hash = 7, known_gifts = Map.empty\<rparr>))) = []"
  using diff_idempotent[of True "\<lparr>snap_hash = 7, snap_gifts = [golden_star]\<rparr>"
          "\<lparr>last_hash = 7, known_gifts = Map.empty\<rparr>"]
        diff_idempotent[of True "\<lparr>snap_hash = 8, snap_gifts = [golden_star]\<rparr>"
          "\<lparr>last_hash = 7, known_gifts = Map.empty\<rparr>"]
  by simp

lemma diff_loop_distinct:
  "distinct (map gift_id gs) \<Longrightarrow>
   diff_loop gs (known, ns, us) = (known', ns', us') \<Longrightarrow>
   ns' = ns @ filter (\<lambda>g. known (gift_id g) = None) gs \<and>
   us' = us @ filter (\<lambda>g. case known (gift_id g) of None \<Rightarrow> False
                           | Some old \<Rightarrow> gift_changed old g) gs \<and>
   (\<forall>g \<in> set gs. known' (gift_id g) =
      (case known (gift_id g) of None \<Rightarrow> Some g
       | Some old \<Rightarrow> if gift_changed old g then Some g else Some old)) \<and>
   (\<forall>i. i \<notin> gift_id ` set gs \<longrightarrow> known' i = known i)"
proof (induction gs arbitrary: known ns us)
  case Nil
  then show ?case by simp
next
  case (Cons g gs)
  define k1 where "k1 = (case known (gift_id g) of None \<Rightarrow> known(gift_id g \<mapsto> g)
      | Some old \<Rightarrow> if gift_changed old g then known(gift_id g \<mapsto> g) else known)"
  define n1 where "n1 = (case known (gift_id g) of None \<Rightarrow> ns @ [g] | Some old \<Rightarrow> ns)"
  define u1 where "u1 = (case known (gift_id g) of None \<Rightarrow> us
      | Some old \<Rightarrow> if gift_changed old g then us @ [g] else us)"
  have step: "diff_loop (g # gs) (known, ns, us) = diff_loop gs (k1, n1, u1)"
    by (simp add: k1_def n1_def u1_def split: option.splits)
  have d: "distinct (map gift_id gs)" and fresh: "gift_id g \<notin> gift_id ` set gs"
    using Cons.prems(1) by auto
  have same: "k1 (gift_id g') = known (gift_id g')" if "g' \<in> set gs" for g'
  proof -
    have "gift_id g' \<in> gift_id ` set gs" using that by (rule imageI)
    with fresh have "gift_id g' \<noteq> gift_id g" by metis
    then show ?thesis by (simp add: k1_def split: option.splits)
  qed
  from Cons.prems(2) step have "diff_loop gs (k1, n1, u1) = (known', ns', us')" by simp
  note ih = Cons.IH[OF d this]
  have f1: "filter (\<lambda>g. k1 (gift_id g) = None) gs = filter (\<lambda>g. known (gift_id g) = None) gs"
    using same by (intro filter_cong) auto
  have f2: "filter (\<lambda>g. case k1 (gift_id g) of None \<Rightarrow> False
                           | Some old \<Rightarrow> gift_changed old g) gs =
            filter (\<lambda>g. case known (gift_id g) of None \<Rightarrow> False
                           | Some old \<Rightarrow> gift_changed old g) gs"
    using same by (intro filter_cong) auto
  have a: "ns' = ns @ filter (\<lambda>g. known (gift_id g) = None) (g # gs)"
    using ih f1 by (simp add: n1_def split: option.splits)
  have b: "us' = us @ filter (\<lambda>g. case known (gift_id g) of None \<Rightarrow> False
                           | Some old \<Rightarrow> gift_changed old g) (g # gs)"
    using ih f2 by (simp add: u1_def split: option.splits)
  have kg: "known' (gift_id g) = k1 (gift_id g)" using ih fresh by simp
  have c: "\<forall>g' \<in> set (g # gs). known' (gift_id g') =
      (case known (gift_id g') of None \<Rightarrow> Some g'
       | Some old \<Rightarrow> if gift_changed old g' then Some g' else Some old)"
  proof
    fix g' assume "g' \<in> set (g # gs)"
    then consider "g' = g" | "g' \<in> set gs" by auto
    then show "known' (gift_id g') =
      (case known (gift_id g') of None \<Rightarrow> Some g'
       | Some old \<Rightarrow> if gift_changed old g' then Some g' else Some old)"
    proof cases
      case 1
      then show ?thesis using kg by (simp add: k1_def split: option.splits)
    next
      case 2
      then show ?thesis using ih same by simp
    qed
  qed
  have e: "\<forall>i. i \<notin> gift_id ` set (g # gs) \<longrightarrow> known' i = known i"
    using ih by (auto simp: k1_def split: option.splits)
  show ?case using a b c e by blast
qed

text \<open>
  C6, as stated, fails. The callback is invoked only for gifts that pass \<open>_should_notify\<close>
  (limited, not sold out, with a positive price). A snapshot with a new token in which
  a known gift has flipped to sold out replaces the stored record but emits no
  \<open>Updated\<close> event.
\<close>

theorem sold_out_flip_emits_nothing:
  "check_for_new_gifts True
     (Some \<lparr>snap_hash = 8, snap_gifts = [golden_star\<lparr>sold_out := True\<rparr>]\<rparr>)
     \<lparr>last_hash = 7, known_gifts = [42 \<mapsto> golden_star]\<rparr> =
   (\<lparr>last_hash = 8, known_gifts = [42 \<mapsto> golden_star\<lparr>sold_out := True\<rparr>]\<rparr>, []) \<and>
   gift_changed golden_star (golden_star\<lparr>sold_out := True\<rparr>)"
  by (simp add: check_for_new_gifts_def golden_star_def gift_changed_def should_notify_def)

text \<open>
  C6, amended. For a snapshot whose token differs from the stored one and whose item
  ids are pairwise distinct: the token is stored; an item whose id is absent from the
  known-gift table is inserted, and an item whose id is known and whose \<open>sold_out\<close>,
  \<open>availability_remains\<close> or \<open>stars\<close> differs from the stored record replaces it; every
  other entry of the table stays as it is. With a callback, exactly one \<open>New\<close> event is
  emitted for each inserted item that passes \<open>_should_notify\<close> and exactly one \<open>Updated\<close>
  event for each replaced item that passes it, all \<open>New\<close> events first, each group in
  snapshot order; no event is emitted for an item that does not pass
  \<open>_should_notify\<close> (so none for a flip to sold out) nor for a known item where only
  other fields differ. Without a callback no event is emitted.
\<close>

theorem diff_events:
  "distinct (map gift_id (snap_gifts d)) \<and> snap_hash d \<noteq> last_hash m \<and>
   check_for_new_gifts callback (Some d) m = (m', evs) \<longrightarrow>
     evs =
       (if callback
        then map (\<lambda>g. (g, New))
               (filter should_notify
                  (filter (\<lambda>g. known_gifts m (gift_id g) = None) (snap_gifts d))) @
             map (\<lambda>g. (g, Updated))
               (filter should_notify
                  (filter (\<lambda>g. case known_gifts m (gift_id g) of None \<Rightarrow> False
                               | Some old \<Rightarrow> gift_changed old g) (snap_gifts d)))
        else []) \<and>
     last_hash m' = snap_hash d \<and>
     (\<forall>g \<in> set (snap_gifts d). known_gifts m' (gift_id g) =
        (case known_gifts m (gift_id g) of None \<Rightarrow> Some g
         | Some old \<Rightarrow> if gift_changed old g then Some g else Some old)) \<and>
     (\<forall>i. i \<notin> gift_id ` set (snap_gifts d) \<longrightarrow> known_gifts m' i = known_gifts m i)"
proof (intro impI)
  assume a: "distinct (map gift_id (snap_gifts d)) \<and> snap_hash d \<noteq> last_hash m \<and>
   check_for_new_gifts callback (Some d) m = (m', evs)"
  obtain known' ns' us' where dl:
    "diff_loop (snap_gifts d) (known_gifts m, [], []) = (known', ns', us')"
    by (cases "diff_loop (snap_gifts d) (known_gifts m, [], [])")
  from a have dist: "distinct (map gift_id (snap_gifts d))" by simp
  note r = diff_loop_distinct[OF dist dl]
  from a have tok: "snap_hash d \<noteq> last_hash m"
    and chk: "check_for_new_gifts callback (Some d) m = (m', evs)" by simp_all
  from chk tok dl have m': "m' = m\<lparr>last_hash := snap_hash d, known_gifts := known'\<rparr>"
    and evs: "evs = (if callback
                  then map (\<lambda>g. (g, New)) (filter should_notify ns') @
                       map (\<lambda>g. (g, Updated)) (filter should_notify us')
                  else [])"
    by (simp_all add: check_for_new_gifts_def)
  have 1: "evs =
       (if callback
        then map (\<lambda>g. (g, New))
               (filter should_notify
                  (filter (\<lambda>g. known_gifts m (gift_id g) = None) (snap_gifts d))) @
             map (\<lambda>g. (g, Updated))
               (filter should_notify
                  (filter (\<lambda>g. case known_gifts m (gift_id g) of None \<Rightarrow> False
                               | Some old \<Rightarrow> gift_changed old g) (snap_gifts d)))
        else [])"
    using r by (simp only: evs append_Nil)
  have 2: "last_hash m' = snap_hash d" "known_gifts m' = known'" by (simp_all add: m')
  show "evs =
       (if callback
        then map (\<lambda>g. (g, New))
               (filter should_notify
                  (filter (\<lambda>g. known_gifts m (gift_id g) = None) (snap_gifts d))) @
             map (\<lambda>g. (g, Updated))
               (filter should_notify
                  (filter (\<lambda>g. case known_gifts m (gift_id g) of None \<Rightarrow> False
                               | Some old \<Rightarrow> gift_changed old g) (snap_gifts d)))
        else []) \<and>
     last_hash m' = snap_hash d \<and>
     (\<forall>g \<in> set (snap_gifts d). known_gifts m' (gift_id g) =
        (case known_gifts m (gift_id g) of None \<Rightarrow> Some g
         | Some old \<Rightarrow> if gift_changed old g then Some g else Some old)) \<and>
     (\<forall>i. i \<notin> gift_id ` set (snap_gifts d) \<longrightarrow> known_gifts m' i = known_gifts m i)"
    using 1 2 r by simp
qed

theorem diff_events_witness:
  "snd (check_for_new_gifts True
          (Some \<lparr>snap_hash = 8,
                 snap_gifts = [golden_star\<lparr>stars := 400\<rparr>, golden_star\<lparr>gift_id := 43\<rparr>,
                               golden_star\<lparr>gift_id := 44, title := ''Silver''\<rparr>]\<rparr>)
          \<lparr>last_hash = 7,
           known_gifts = [42 \<mapsto> golden_star, 44 \<mapsto> golden_star\<lparr>gift_id := 44\<rparr>]\<rparr>) =
     [(golden_star\<lparr>gift_id := 43\<rparr>, New), (golden_star\<lparr>stars := 400\<rparr>, Updated)]"
  using diff_events
    [of "\<lparr>snap_hash = 8,
          snap_gifts = [golden_star\<lparr>stars := 400\<rparr>, golden_star\<lparr>gift_id := 43\<rparr>,
                        golden_star\<lparr>gift_id := 44, title := ''Silver''\<rparr>]\<rparr>"
        "\<lparr>last_hash = 7,
          known_gifts = [42 \<mapsto> golden_star, 44 \<mapsto> golden_star\<lparr>gift_id := 44\<rparr>]\<rparr>"
        True
        "fst (check_for_new_gifts True
          (Some \<lparr>snap_hash = 8,
                 snap_gifts = [golden_star\<lparr>stars := 400\<rparr>, golden_star\<lparr>gift_id := 43\<rparr>,
                               golden_star\<lparr>gift_id := 44, title := ''Silver''\<rparr>]\<rparr>)
          \<lparr>last_hash = 7,
           known_gifts = [42 \<mapsto> golden_star, 44 \<mapsto> golden_star\<lparr>gift_id := 44\<rparr>]\<rparr>)"
        "snd (check_for_new_gifts True
          (Some \<lparr>snap_hash = 8,
                 snap_gifts = [golden_star\<lparr>stars := 400\<rparr>, golden_star\<lparr>gift_id := 43\<rparr>,
                               golden_star\<lparr>gift_id := 44, title := ''Silver''\<rparr>]\<rparr>)
          \<lparr>last_hash = 7,
           known_gifts = [42 \<mapsto> golden_star, 44 \<mapsto> golden_star\<lparr>gift_id := 44\<rparr>]\<rparr>)"]
  by (simp add: check_for_new_gifts_def golden_star_def gift_changed_def should_notify_def)

section \<open>The queue and the dispatcher on concrete executions\<close>

lemmas engine_eval =
  engine_with_def sample_engine_def allocate_def init_engine_def sample_job_def add_job_def
  py_sort_reverse_def job_key_def get_next_job_def eligible_def requeue_job_def Let_def
  less_eq_prod_def less_prod_def process_queue_def check_rate_limits_def
  send_notification_def record_notification_def mark_user_inactive_def history_of_def
  sample_users_def

text \<open>
  C1. \<open>get_next_job\<close> returns an eligible job of the highest priority, but among jobs of
  equal priority it does not return the one created first: \<open>add_job\<close> sorts the whole
  key \<open>(priority, created_at)\<close> in descending order. With the jobs of the spec's example
  (A: NORMAL at 0, B: URGENT at 5, C: NORMAL at 0, added in this order) the queue is
  B, A, C, as the spec says; with two NORMAL jobs created at 0 and at 5, both eligible at
  clock reading 10, the job created at 5 is returned first.
\<close>

theorem get_next_job_newest_first:
  "queue (engine_with [sample_job 1 NORMAL 0, sample_job 2 URGENT 5, sample_job 3 NORMAL 0]) =
     [1, 0, 2] \<and>
   queue (engine_with [sample_job 1 NORMAL 0, sample_job 2 NORMAL 5]) = [1, 0] \<and>
   fst (get_next_job 10 (engine_with [sample_job 1 NORMAL 0, sample_job 2 NORMAL 5])) = Some 1 \<and>
   created_at (heap (engine_with [sample_job 1 NORMAL 0, sample_job 2 NORMAL 5]) 1) = 5 \<and>
   eligible 10 (heap (engine_with [sample_job 1 NORMAL 0, sample_job 2 NORMAL 5]) 0)"
  by (simp add: engine_eval)

text \<open>
  C4. A job with \<open>max_attempts = 3\<close> whose delivery fails three times, the third time
  with a flood wait, is counted twice in \<open>total_failed\<close>: the handler of \<open>FloodWait\<close>
  calls \<open>requeue_job\<close> and returns \<open>False\<close>, and \<open>_process_queue\<close> calls \<open>requeue_job\<close>
  again. When the flood wait comes first, the same object is put in the queue twice, and
  after the next failure it is still in the queue with \<open>attempts = max_attempts\<close>.
\<close>

theorem flood_wait_counts_twice:
  "total_failed (fst (run sample_interpreter [Step OtherError True 0, Step OtherError True 60,
                           Step (FloodWait 5) True 120]
                        (engine_with [sample_job 1 NORMAL 0], []))) = 2 \<and>
   snd (run sample_interpreter [Step OtherError True 0, Step OtherError True 60, Step (FloodWait 5) True 120]
          (engine_with [sample_job 1 NORMAL 0], [])) =
     [(0, 0, OtherError), (60, 0, OtherError), (120, 0, FloodWait 5)] \<and>
   queue (fst (run sample_interpreter [Step (FloodWait 5) True 0, Step OtherError True 60]
                 (engine_with [sample_job 1 NORMAL 0], []))) = [0] \<and>
   attempts (heap (fst (run sample_interpreter [Step (FloodWait 5) True 0, Step OtherError True 60]
                          (engine_with [sample_job 1 NORMAL 0], []))) 0) = 3"
  by (simp add: engine_eval)

section \<open>Properties of the filter and of \<open>create_notification\<close>\<close>

lemma fold_upd_other:
  "uid \<notin> k ` set xs \<Longrightarrow> fold (\<lambda>u m. m(k u \<mapsto> v u)) xs fs uid = fs uid"
  by (induction xs arbitrary: fs) auto

lemma load_user_filters_absent:
  "\<forall>u\<in>set db. u_user_id u = uid \<longrightarrow> \<not> u_notifications_enabled u \<Longrightarrow>
   load_user_filters db fs uid = fs uid"
  unfolding load_user_filters_def get_all_users_def
  by (rule fold_upd_other) auto

lemma should_notify_user_no_filter:
  "filters s uid = None \<Longrightarrow> should_notify_user py uid g ntype now s = (False, s)"
  by (simp add: should_notify_user_def)

lemma check_frequency_frame:
  "check_notification_frequency uid ntype now s = (b, s1) \<Longrightarrow>
   filters s1 = filters s \<and> heap s1 = heap s \<and> next_ref s1 = next_ref s \<and> queue s1 = queue s"
  by (auto simp: check_notification_frequency_def Let_def)

lemma should_notify_user_cases:
  "should_notify_user py uid g ntype now s = (False, s) \<or>
   (filters s uid \<noteq> None \<and>
    should_notify_user py uid g ntype now s = check_notification_frequency uid ntype now s)"
  by (cases "filters s uid") (simp_all add: should_notify_user_def)

lemma should_notify_user_frame:
  "should_notify_user py uid g ntype now s = (b, s1) \<Longrightarrow>
   filters s1 = filters s \<and> heap s1 = heap s \<and> next_ref s1 = next_ref s \<and> queue s1 = queue s"
  using should_notify_user_cases[of py uid g ntype now s] check_frequency_frame[of uid ntype now s b s1]
  by auto

lemma should_notify_user_True:
  "should_notify_user py uid g ntype now s = (True, s1) \<Longrightarrow> filters s uid \<noteq> None"
  using should_notify_user_cases[of py uid g ntype now s] by auto

lemma set_py_sort_reverse [simp]: "set (py_sort_reverse k xs) = set xs"
  by (simp add: py_sort_reverse_def)

lemma add_job_frame:
  "filters (add_job r s) = filters s" "heap (add_job r s) = heap s"
  "next_ref (add_job r s) = next_ref s" "set (queue (add_job r s)) = insert r (set (queue s))"
  by (simp_all add: add_job_def)

lemma user_id_new_job [simp]: "user_id (new_job py uid g ntype prio template now) = uid"
  by (simp add: new_job_def)

lemma create_step:
  assumes "should_notify_user py u g ntype now s = (b, s1)"
  shows "create_loop py (u # uids) g ntype prio template now (ids, s) =
     (if b then
        (if \<not> str_int_ok py u then (Inl ValueError, s1)
         else create_loop py uids g ntype prio template now
                 (ids @ [(u, ntype, now)],
                  add_job (next_ref s1)
                    (snd (allocate (new_job py u g ntype prio template now) s1))))
      else create_loop py uids g ntype prio template now (ids, s1))"
  using assms by (simp add: allocate_def)

lemma create_loop_no_filter:
  "create_loop py uids g ntype prio template now (ids, s) = (res, s') \<Longrightarrow>
   filters s uid = None \<Longrightarrow>
   filters s' = filters s \<and> next_ref s \<le> next_ref s' \<and>
   (\<forall>r < next_ref s. heap s' r = heap s r) \<and>
   (\<forall>r. next_ref s \<le> r \<and> r < next_ref s' \<longrightarrow> user_id (heap s' r) \<noteq> uid) \<and>
   set (queue s') = set (queue s) \<union> {next_ref s ..< next_ref s'} \<and>
   (\<forall>ids'. res = Inr ids' \<longrightarrow> (\<forall>j \<in> set ids'. j \<in> set ids \<or> fst j \<noteq> uid))"
proof (induction uids arbitrary: ids s)
  case Nil
  then show ?case by auto
next
  case (Cons u uids)
  obtain b s1 where sn: "should_notify_user py u g ntype now s = (b, s1)"
    by (cases "should_notify_user py u g ntype now s")
  note fr = should_notify_user_frame[OF sn]
  note step = create_step[OF sn, of uids prio template ids]
  show ?case
  proof (cases b)
    case False
    with Cons.prems(1) step
    have "create_loop py uids g ntype prio template now (ids, s1) = (res, s')" by simp
    from Cons.IH[OF this] Cons.prems(2) fr show ?thesis by simp
  next
    case True
    with sn have une: "u \<noteq> uid" using Cons.prems(2) should_notify_user_True by fastforce
    show ?thesis
    proof (cases "str_int_ok py u")
      case False
      with Cons.prems(1) step True have "res = Inl ValueError" "s' = s1" by simp_all
      with fr show ?thesis by auto
    next
      case ok: True
      define job where "job = new_job py u g ntype prio template now"
      define s2 where "s2 = add_job (next_ref s1) (snd (allocate job s1))"
      have rec: "create_loop py uids g ntype prio template now (ids @ [(u, ntype, now)], s2) =
          (res, s')"
        using Cons.prems(1) step True ok by (simp add: s2_def job_def)
      have s2f: "filters s2 = filters s" "next_ref s2 = Suc (next_ref s)"
        "heap s2 = (heap s)(next_ref s := job)"
        "set (queue s2) = insert (next_ref s) (set (queue s))"
        using fr by (simp_all add: s2_def add_job_frame allocate_def)
      have f2: "filters s2 uid = None" using s2f(1) Cons.prems(2) by simp
      note ih = Cons.IH[OF rec f2]
      have a: "\<forall>r < next_ref s. heap s' r = heap s r" using ih s2f by simp
      have b: "\<forall>r. next_ref s \<le> r \<and> r < next_ref s' \<longrightarrow> user_id (heap s' r) \<noteq> uid"
      proof (intro allI impI)
        fix r assume r: "next_ref s \<le> r \<and> r < next_ref s'"
        show "user_id (heap s' r) \<noteq> uid"
        proof (cases "r = next_ref s")
          case True
          then have "heap s' r = job" using ih s2f by simp
          then show ?thesis using une by (simp add: job_def)
        next
          case False
          then show ?thesis using r ih s2f(2) by simp
        qed
      qed
      have c: "set (queue s') = set (queue s) \<union> {next_ref s ..< next_ref s'}"
        using ih s2f by auto
      have d: "\<forall>ids'. res = Inr ids' \<longrightarrow> (\<forall>j \<in> set ids'. j \<in> set ids \<or> fst j \<noteq> uid)"
      proof (intro allI impI ballI)
        fix ids' j assume "res = Inr ids'" "j \<in> set ids'"
        with ih have "j \<in> set (ids @ [(u, ntype, now)]) \<or> fst j \<noteq> uid" by blast
        with une show "j \<in> set ids \<or> fst j \<noteq> uid" by auto
      qed
      have e: "filters s' = filters s" "next_ref s \<le> next_ref s'" using ih s2f by simp_all
      show ?thesis using e a b c d by blast
    qed
  qed
qed

lemma create_notification_no_filter:
  assumes "create_notification py uids g ntype prio now s = (res, s')" "filters s uid = None"
  shows "(\<forall>ids. res = Inr ids \<longrightarrow> (\<forall>j \<in> set ids. fst j \<noteq> uid)) \<and> filters s' uid = None \<and>
   (\<forall>r. next_ref s \<le> r \<and> r < next_ref s' \<longrightarrow> user_id (heap s' r) \<noteq> uid) \<and>
   (\<forall>r < next_ref s. heap s' r = heap s r) \<and>
   set (queue s') = set (queue s) \<union> {next_ref s ..< next_ref s'}"
proof (cases "templates ntype")
  case None
  with assms show ?thesis by (auto simp: create_notification_def)
next
  case (Some template)
  with assms(1) have "create_loop py uids g ntype prio template now ([], s) = (res, s')"
    by (simp add: create_notification_def)
  from create_loop_no_filter[OF this assms(2)] assms(2) show ?thesis by simp
qed

lemma conj_imp_split: "(P \<longrightarrow> Q) \<Longrightarrow> (P \<longrightarrow> R) \<Longrightarrow> S \<Longrightarrow> (P \<longrightarrow> Q \<and> R) \<and> S"
  by blast

text \<open>
  C9. A user id without an entry in the filter table is never notified:
  \<open>should_notify_user\<close> returns \<open>False\<close> for every gift and every kind and leaves the
  state as it is, and \<open>create_notification\<close>, whatever the list of user ids, returns no
  job identifier of that user, allocates no job object of that user, leaves the job
  objects that existed untouched and adds to the queue only the objects it allocated;
  the user still has no entry afterwards. The filter table of a new engine has no
  entry for a user id all of whose rows in the \<open>users\<close> table have notifications
  disabled (in particular for an id with no row).
\<close>

theorem no_filter_entry_no_job:
  "(filters s uid = None \<longrightarrow>
      should_notify_user py uid g ntype now s = (False, s) \<and>
      (\<forall>res s'. create_notification py uids g ntype prio now s = (res, s') \<longrightarrow>
         (\<forall>ids. res = Inr ids \<longrightarrow> (\<forall>j \<in> set ids. fst j \<noteq> uid)) \<and> filters s' uid = None \<and>
         (\<forall>r. next_ref s \<le> r \<and> r < next_ref s' \<longrightarrow> user_id (heap s' r) \<noteq> uid) \<and>
         (\<forall>r < next_ref s. heap s' r = heap s r) \<and>
         set (queue s') = set (queue s) \<union> {next_ref s ..< next_ref s'})) \<and>
   ((\<forall>u\<in>set db. u_user_id u = uid \<longrightarrow> \<not> u_notifications_enabled u) \<longrightarrow>
      filters (init_engine store db) uid = None)"
proof -
  have A: "filters s uid = None \<longrightarrow> should_notify_user py uid g ntype now s = (False, s)"
    by (simp add: should_notify_user_no_filter)
  have B: "filters s uid = None \<longrightarrow>
      (\<forall>res s'. create_notification py uids g ntype prio now s = (res, s') \<longrightarrow>
         (\<forall>ids. res = Inr ids \<longrightarrow> (\<forall>j \<in> set ids. fst j \<noteq> uid)) \<and> filters s' uid = None \<and>
         (\<forall>r. next_ref s \<le> r \<and> r < next_ref s' \<longrightarrow> user_id (heap s' r) \<noteq> uid) \<and>
         (\<forall>r < next_ref s. heap s' r = heap s r) \<and>
         set (queue s') = set (queue s) \<union> {next_ref s ..< next_ref s'})"
    by (intro impI allI) (rule create_notification_no_filter)
  have C: "(\<forall>u\<in>set db. u_user_id u = uid \<longrightarrow> \<not> u_notifications_enabled u) \<longrightarrow>
      filters (init_engine store db) uid = None"
    by (simp add: init_engine_def load_user_filters_absent)
  show ?thesis by (rule conj_imp_split[OF A B C])
qed

lemmas filter_eval =
  sample_engine_def init_engine_def load_user_filters_def get_all_users_def sample_users_def
  create_notification_def should_notify_user_def check_notification_frequency_def
  keywords_reject_def excluded_reject_def time_reject_def history_of_def allocate_def
  add_job_def golden_star_def Let_def py_sort_reverse_def str_int_ok_sample

theorem no_filter_entry_no_job_witness:
  "filters sample_engine 2 = None \<and>
   should_notify_user sample_interpreter 2 golden_star NEW_GIFT 0 sample_engine =
     (False, sample_engine) \<and>
   fst (create_notification sample_interpreter [1, 2] golden_star NEW_GIFT HIGH 0
          sample_engine) = Inr [(1, NEW_GIFT, 0)] \<and>
   queue (snd (create_notification sample_interpreter [1, 2] golden_star NEW_GIFT HIGH 0
                 sample_engine)) = [0]"
  using no_filter_entry_no_job[where s = sample_engine and uid = 2 and g = golden_star
          and ntype = NEW_GIFT and now = 0 and uids = "[1, 2]" and prio = HIGH
          and db = sample_users and store = "\<lambda>_. sample_job 0 LOW 0"
          and py = sample_interpreter]
  by (simp add: filter_eval)

section \<open>Properties of the dispatcher\<close>

lemma process_queue_busy: "processing s \<Longrightarrow> process_queue res db_ok now s = (s, None)"
  by (simp add: process_queue_def)

lemma process_queue_capped:
  "\<not> processing s \<Longrightarrow>
   messages_per_minute s \<le> int (length (filter (\<lambda>msg. now - msg < 60) (sent_messages s))) \<Longrightarrow>
   process_queue res db_ok now s =
     (s\<lparr>sent_messages := filter (\<lambda>msg. now - msg < 60) (sent_messages s),
        processing := False\<rparr>, None)"
  by (simp add: process_queue_def check_rate_limits_def Let_def)

lemma process_queue_idle:
  "\<not> processing s \<Longrightarrow>
   int (length (filter (\<lambda>msg. now - msg < 60) (sent_messages s))) < messages_per_minute s \<Longrightarrow>
   pop_first (\<lambda>r. eligible now (heap s r)) (queue s) = None \<Longrightarrow>
   process_queue res db_ok now s =
     (s\<lparr>sent_messages := filter (\<lambda>msg. now - msg < 60) (sent_messages s),
        processing := False\<rparr>, None)"
  by (simp add: process_queue_def check_rate_limits_def get_next_job_def Let_def)

lemma process_queue_send:
  "\<not> processing s \<Longrightarrow>
   int (length (filter (\<lambda>msg. now - msg < 60) (sent_messages s))) < messages_per_minute s \<Longrightarrow>
   pop_first (\<lambda>r. eligible now (heap s r)) (queue s) = Some (r, rest) \<Longrightarrow>
   process_queue res db_ok now s =
     (case send_notification res db_ok r now
             (s\<lparr>processing := True,
                sent_messages := filter (\<lambda>msg. now - msg < 60) (sent_messages s),
                queue := rest\<rparr>) of
        (True, s3) \<Rightarrow>
          ((record_notification r now (s3\<lparr>total_sent := total_sent s3 + 1\<rparr>))
             \<lparr>processing := False\<rparr>, Some (r, res))
      | (False, s3) \<Rightarrow> ((requeue_job r 60 now s3)\<lparr>processing := False\<rparr>, Some (r, res)))"
  by (simp add: process_queue_def check_rate_limits_def get_next_job_def Let_def)

lemma requeue_job_frame:
  "sent_messages (requeue_job r d now s) = sent_messages s"
  "messages_per_minute (requeue_job r d now s) = messages_per_minute s"
  "notification_history (requeue_job r d now s) = notification_history s"
  "users (requeue_job r d now s) = users s"
  "filters (requeue_job r d now s) = filters s"
  "total_sent (requeue_job r d now s) = total_sent s"
  by (simp_all add: requeue_job_def add_job_def Let_def)

lemma send_notification_frame:
  "send_notification res db_ok r now s = (b, s3) \<Longrightarrow>
   b = (res = Ack) \<and>
   messages_per_minute s3 = messages_per_minute s \<and>
   notification_history s3 = notification_history s \<and>
   filters s3 = filters s \<and> total_sent s3 = total_sent s \<and>
   sent_messages s3 = sent_messages s @ (if res = Ack then [now] else [])"
  by (cases res)
     (auto simp: send_notification_def requeue_job_frame mark_user_inactive_def)















lemma process_queue_call:
  assumes "process_queue res db_ok now s = (s', Some (r, res'))"
  shows "\<exists>rest. res' = res \<and> \<not> processing s \<and>
     int (length (filter (\<lambda>m. now - m < 60) (sent_messages s))) < messages_per_minute s \<and>
     pop_first (\<lambda>r. eligible now (heap s r)) (queue s) = Some (r, rest) \<and>
     (s', Some (r, res)) =
       (case send_notification res db_ok r now
             (s\<lparr>processing := True,
                sent_messages := filter (\<lambda>msg. now - msg < 60) (sent_messages s),
                queue := rest\<rparr>) of
        (True, s3) \<Rightarrow>
          ((record_notification r now (s3\<lparr>total_sent := total_sent s3 + 1\<rparr>))
             \<lparr>processing := False\<rparr>, Some (r, res))
      | (False, s3) \<Rightarrow> ((requeue_job r 60 now s3)\<lparr>processing := False\<rparr>, Some (r, res)))"
proof (cases "processing s")
  case True
  with assms show ?thesis by (simp add: process_queue_busy)
next
  case idle: False
  show ?thesis
  proof (cases "int (length (filter (\<lambda>m. now - m < 60) (sent_messages s))) < messages_per_minute s")
    case False
    with idle assms show ?thesis by (simp add: process_queue_capped)
  next
    case under: True
    show ?thesis
    proof (cases "pop_first (\<lambda>r. eligible now (heap s r)) (queue s)")
      case None
      with idle under assms show ?thesis by (simp add: process_queue_idle)
    next
      case (Some p)
      obtain r0 rest where p: "p = (r0, rest)" by (cases p)
      note ps = process_queue_send[OF idle under, of r0 rest res db_ok]
      have eq: "(s', Some (r, res')) =
       (case send_notification res db_ok r0 now
             (s\<lparr>processing := True,
                sent_messages := filter (\<lambda>msg. now - msg < 60) (sent_messages s),
                queue := rest\<rparr>) of
        (True, s3) \<Rightarrow>
          ((record_notification r0 now (s3\<lparr>total_sent := total_sent s3 + 1\<rparr>))
             \<lparr>processing := False\<rparr>, Some (r0, res))
      | (False, s3) \<Rightarrow> ((requeue_job r0 60 now s3)\<lparr>processing := False\<rparr>, Some (r0, res)))"
        using ps Some p assms by simp
      then have "r = r0" "res' = res" by (auto split: prod.splits bool.splits)
      with eq Some p idle under show ?thesis by auto
    qed
  qed
qed

lemma requeue_job_effect:
  "heap (requeue_job r d now s) =
     (heap s)(r := (heap s r)\<lparr>attempts := attempts (heap s r) + 1, scheduled_at := now + d\<rparr>)"
  "queue (requeue_job r d now s) =
     (if attempts (heap s r) + 1 < max_attempts (heap s r)
      then py_sort_reverse (job_key (heap (requeue_job r d now s))) (queue s @ [r])
      else queue s)"
  "total_failed (requeue_job r d now s) =
     (if attempts (heap s r) + 1 < max_attempts (heap s r) then total_failed s
      else total_failed s + 1)"
  by (simp_all add: requeue_job_def add_job_def Let_def)

lemma process_queue_failed:
  assumes "process_queue res db_ok now s = (s', Some (r, res'))"
    and "res = UserIsBlocked \<or> res = ChatWriteForbidden \<or> res = OtherError"
  shows "users s' =
       (if db_ok \<and> res \<noteq> OtherError
        then map (\<lambda>u. if u_user_id u = user_id (heap s r)
                     then u\<lparr>u_notifications_enabled := False\<rparr> else u) (users s)
        else users s) \<and>
     heap s' = (heap s)(r := (heap s r)\<lparr>attempts := attempts (heap s r) + 1,
                                      scheduled_at := now + 60\<rparr>) \<and>
     (\<exists>rest. pop_first (\<lambda>r. eligible now (heap s r)) (queue s) = Some (r, rest) \<and>
        queue s' =
          (if attempts (heap s r) + 1 < max_attempts (heap s r)
           then py_sort_reverse (job_key (heap s')) (rest @ [r]) else rest)) \<and>
     total_failed s' =
       (if attempts (heap s r) + 1 < max_attempts (heap s r) then total_failed s
        else total_failed s + 1) \<and>
     sent_messages s' = filter (\<lambda>m. now - m < 60) (sent_messages s) \<and>
     notification_history s' = notification_history s \<and> total_sent s' = total_sent s"
proof -
  from process_queue_call[OF assms(1)] obtain rest where
    pop: "pop_first (\<lambda>r. eligible now (heap s r)) (queue s) = Some (r, rest)" and
    eq: "(s', Some (r, res)) =
       (case send_notification res db_ok r now
             (s\<lparr>processing := True,
                sent_messages := filter (\<lambda>msg. now - msg < 60) (sent_messages s),
                queue := rest\<rparr>) of
        (True, s3) \<Rightarrow>
          ((record_notification r now (s3\<lparr>total_sent := total_sent s3 + 1\<rparr>))
             \<lparr>processing := False\<rparr>, Some (r, res))
      | (False, s3) \<Rightarrow> ((requeue_job r 60 now s3)\<lparr>processing := False\<rparr>, Some (r, res)))"
    by blast
  define s2 where "s2 = s\<lparr>processing := True,
                sent_messages := filter (\<lambda>msg. now - msg < 60) (sent_messages s),
                queue := rest\<rparr>"
  define s3 where "s3 = (if res = OtherError then s2
                         else mark_user_inactive db_ok (user_id (heap s r)) s2)"
  have sn: "send_notification res db_ok r now s2 = (False, s3)"
    using assms(2) by (auto simp: send_notification_def s3_def s2_def)
  have s': "s' = (requeue_job r 60 now s3)\<lparr>processing := False\<rparr>"
    using eq sn by (simp add: s2_def)
  have s3f: "heap s3 = heap s" "queue s3 = rest" "total_failed s3 = total_failed s"
    "sent_messages s3 = filter (\<lambda>m. now - m < 60) (sent_messages s)"
    "notification_history s3 = notification_history s" "total_sent s3 = total_sent s"
    "users s3 = (if db_ok \<and> res \<noteq> OtherError
        then map (\<lambda>u. if u_user_id u = user_id (heap s r)
                     then u\<lparr>u_notifications_enabled := False\<rparr> else u) (users s)
        else users s)"
    by (simp_all add: s3_def s2_def mark_user_inactive_def)
  have h: "heap s' = (heap s)(r := (heap s r)\<lparr>attempts := attempts (heap s r) + 1,
                                      scheduled_at := now + 60\<rparr>)"
    by (simp add: s' requeue_job_effect s3f)
  have q: "queue s' =
          (if attempts (heap s r) + 1 < max_attempts (heap s r)
           then py_sort_reverse (job_key (heap s')) (rest @ [r]) else rest)"
    by (simp add: s' requeue_job_effect s3f)
  have rest: "total_failed s' =
       (if attempts (heap s r) + 1 < max_attempts (heap s r) then total_failed s
        else total_failed s + 1)"
    "sent_messages s' = filter (\<lambda>m. now - m < 60) (sent_messages s)"
    "notification_history s' = notification_history s" "total_sent s' = total_sent s"
    "users s' = (if db_ok \<and> res \<noteq> OtherError
        then map (\<lambda>u. if u_user_id u = user_id (heap s r)
                     then u\<lparr>u_notifications_enabled := False\<rparr> else u) (users s)
        else users s)"
    by (simp_all add: s' requeue_job_effect requeue_job_frame s3f)
  show ?thesis using h q rest pop by blast
qed

text \<open>
  C2, as stated, fails. A job whose send fails because the recipient has blocked the
  bot is not discarded: \<open>_send_notification\<close> returns \<open>False\<close> and \<open>_process_queue\<close> passes
  the job to \<open>requeue_job\<close> as after any failed send. With one queued job and a
  transport that answers \<open>UserIsBlocked\<close>, the job is back in the queue after the step
  at 0, with one attempt counted, and the step at 60 sends it again.
\<close>

theorem blocked_recipient_is_retried:
  "snd (run sample_interpreter [Step UserIsBlocked True 0, Step UserIsBlocked True 60]
          (engine_with [sample_job 1 NORMAL 0], [])) =
     [(0, 0, UserIsBlocked), (60, 0, UserIsBlocked)] \<and>
   queue (fst (run sample_interpreter [Step UserIsBlocked True 0]
                 (engine_with [sample_job 1 NORMAL 0], []))) = [0] \<and>
   attempts (heap (fst (run sample_interpreter [Step UserIsBlocked True 0]
                          (engine_with [sample_job 1 NORMAL 0], []))) 0) = 1"
  by (simp add: engine_eval)

text \<open>
  C2, amended. When the send of a job fails because the recipient is unreachable
  (\<open>UserIsBlocked\<close> or \<open>ChatWriteForbidden\<close>), the dispatcher step sets
  \<open>notifications_enabled\<close> of that user's row in the external store to false (nothing
  changes there if the store raises, which is swallowed), and treats the job as after
  any failed send: one attempt is counted, the job is scheduled 60 seconds later, and
  it is put back into the queue if its attempts are still below \<open>max_attempts\<close>;
  otherwise it is dropped and counted in \<open>total_failed\<close>.
\<close>

theorem blocked_recipient_requeued:
  "process_queue res db_ok now s = (s', Some (r, res')) \<and>
   (res = UserIsBlocked \<or> res = ChatWriteForbidden) \<longrightarrow>
     users s' =
       (if db_ok
        then map (\<lambda>u. if u_user_id u = user_id (heap s r)
                     then u\<lparr>u_notifications_enabled := False\<rparr> else u) (users s)
        else users s) \<and>
     heap s' = (heap s)(r := (heap s r)\<lparr>attempts := attempts (heap s r) + 1,
                                      scheduled_at := now + 60\<rparr>) \<and>
     (\<exists>rest. pop_first (\<lambda>r. eligible now (heap s r)) (queue s) = Some (r, rest) \<and>
        queue s' =
          (if attempts (heap s r) + 1 < max_attempts (heap s r)
           then py_sort_reverse (job_key (heap s')) (rest @ [r]) else rest)) \<and>
     total_failed s' =
       (if attempts (heap s r) + 1 < max_attempts (heap s r) then total_failed s
        else total_failed s + 1)"
proof (intro impI)
  assume a: "process_queue res db_ok now s = (s', Some (r, res')) \<and>
   (res = UserIsBlocked \<or> res = ChatWriteForbidden)"
  then have b: "res = UserIsBlocked \<or> res = ChatWriteForbidden \<or> res = OtherError"
    and c: "res \<noteq> OtherError" by auto
  from a have pq: "process_queue res db_ok now s = (s', Some (r, res'))" by simp
  from process_queue_failed[OF pq b] c
  show "users s' =
       (if db_ok
        then map (\<lambda>u. if u_user_id u = user_id (heap s r)
                     then u\<lparr>u_notifications_enabled := False\<rparr> else u) (users s)
        else users s) \<and>
     heap s' = (heap s)(r := (heap s r)\<lparr>attempts := attempts (heap s r) + 1,
                                      scheduled_at := now + 60\<rparr>) \<and>
     (\<exists>rest. pop_first (\<lambda>r. eligible now (heap s r)) (queue s) = Some (r, rest) \<and>
        queue s' =
          (if attempts (heap s r) + 1 < max_attempts (heap s r)
           then py_sort_reverse (job_key (heap s')) (rest @ [r]) else rest)) \<and>
     total_failed s' =
       (if attempts (heap s r) + 1 < max_attempts (heap s r) then total_failed s
        else total_failed s + 1)"
    by simp
qed

theorem blocked_recipient_requeued_witness:
  "map u_notifications_enabled
     (users (fst (process_queue UserIsBlocked True 0 (engine_with [sample_job 1 NORMAL 0])))) =
     [False, False] \<and>
   map u_notifications_enabled (users (engine_with [sample_job 1 NORMAL 0])) = [True, False] \<and>
   queue (fst (process_queue UserIsBlocked True 0 (engine_with [sample_job 1 NORMAL 0]))) = [0] \<and>
   attempts (heap (fst (process_queue UserIsBlocked True 0
                          (engine_with [sample_job 1 NORMAL 0]))) 0) = 1 \<and>
   scheduled_at (heap (fst (process_queue UserIsBlocked True 0
                              (engine_with [sample_job 1 NORMAL 0]))) 0) = 60"
  using blocked_recipient_requeued
          [of UserIsBlocked True 0 "engine_with [sample_job 1 NORMAL 0]"
              "fst (process_queue UserIsBlocked True 0 (engine_with [sample_job 1 NORMAL 0]))"
              0 UserIsBlocked]
  by (simp add: engine_eval)









lemma recent_count_cong:
  "history_of s1 u = history_of s u \<Longrightarrow> recent_count s1 u k t = recent_count s u k t"
  by (simp add: recent_count_def)

lemma history_of_cong:
  "notification_history s1 = notification_history s \<Longrightarrow> history_of s1 u = history_of s u"
  by (simp add: history_of_def)

lemma filter_hour_later:
  "now \<le> now' \<Longrightarrow>
   filter (\<lambda>n. now' - h_timestamp n < 3600) (filter (\<lambda>n. now - h_timestamp n < 3600) h) =
   filter (\<lambda>n. now' - h_timestamp n < 3600) h"
  by (induction h) auto

lemma check_frequency_history:
  "check_notification_frequency uid ntype now s = (b, s1) \<Longrightarrow>
   history_of s1 u =
     (if u = uid then filter (\<lambda>n. now - h_timestamp n < 3600) (history_of s uid)
      else history_of s u)"
  by (auto simp: check_notification_frequency_def Let_def history_of_def)

lemma check_frequency_recent:
  assumes "check_notification_frequency uid ntype now s = (b, s1)" "now \<le> now'"
  shows "recent_count s1 u k now' = recent_count s u k now'"
proof (cases "u = uid")
  case True
  have "history_of s1 u = filter (\<lambda>n. now - h_timestamp n < 3600) (history_of s u)"
    using check_frequency_history[OF assms(1), of u] True by simp
  then show ?thesis
    by (simp only: recent_count_def filter_hour_later[OF assms(2)])
next
  case False
  then have "history_of s1 u = history_of s u"
    using check_frequency_history[OF assms(1), of u] by simp
  then show ?thesis by (rule recent_count_cong)
qed

lemma should_notify_user_recent:
  assumes "should_notify_user py uid g ntype now s = (b, s1)" "now \<le> now'"
  shows "recent_count s1 u k now' = recent_count s u k now'"
  using should_notify_user_cases[of py uid g ntype now s] assms(1)
    check_frequency_recent[of uid ntype now s b s1 now' u k] assms(2)
  by auto

lemma create_loop_recent:
  "create_loop py uids g ntype prio template now (ids, s) = (res, s') \<Longrightarrow> now \<le> now' \<Longrightarrow>
   recent_count s' u k now' = recent_count s u k now'"
proof (induction uids arbitrary: ids s)
  case Nil
  then show ?case by simp
next
  case (Cons a uids)
  obtain b s1 where sn: "should_notify_user py a g ntype now s = (b, s1)"
    by (cases "should_notify_user py a g ntype now s")
  note rc = should_notify_user_recent[OF sn Cons.prems(2), of u k]
  note step = create_step[OF sn, of uids prio template ids]
  show ?case
  proof (cases "b \<and> str_int_ok py a")
    case True
    define s2 where "s2 = add_job (next_ref s1)
        (snd (allocate (new_job py a g ntype prio template now) s1))"
    from True Cons.prems(1) step have
      "create_loop py uids g ntype prio template now (ids @ [(a, ntype, now)], s2) = (res, s')"
      by (simp add: s2_def)
    from Cons.IH[OF this Cons.prems(2)]
    have "recent_count s' u k now' = recent_count s2 u k now'" .
    also have "notification_history s2 = notification_history s1"
      by (simp add: s2_def add_job_def allocate_def)
    then have "recent_count s2 u k now' = recent_count s1 u k now'"
      by (intro recent_count_cong history_of_cong)
    finally show ?thesis using rc by simp
  next
    case False
    show ?thesis
    proof (cases b)
      case True
      with False Cons.prems(1) step have "s' = s1" by simp
      with rc show ?thesis by simp
    next
      case False
      with Cons.prems(1) step have
        "create_loop py uids g ntype prio template now (ids, s1) = (res, s')" by simp
      from Cons.IH[OF this Cons.prems(2)] rc show ?thesis by simp
    qed
  qed
qed

lemma create_notification_recent:
  "now \<le> now' \<Longrightarrow>
   recent_count (snd (create_notification py uids g ntype prio now s)) u k now' =
   recent_count s u k now'"
proof (cases "templates ntype")
  case None
  then show ?thesis by (simp add: create_notification_def)
next
  case (Some template)
  assume n: "now \<le> now'"
  obtain res s' where r: "create_loop py uids g ntype prio template now ([], s) = (res, s')"
    by (cases "create_loop py uids g ntype prio template now ([], s)")
  from create_loop_recent[OF r n] r Some show ?thesis
    by (simp add: create_notification_def)
qed

lemma process_queue_no_call_history:
  assumes "process_queue res db_ok now s = (s', None)"
  shows "notification_history s' = notification_history s"
proof (cases "processing s")
  case True
  with assms show ?thesis by (simp add: process_queue_busy)
next
  case idle: False
  show ?thesis
  proof (cases "int (length (filter (\<lambda>m. now - m < 60) (sent_messages s))) < messages_per_minute s")
    case False
    with idle assms show ?thesis by (auto simp: process_queue_capped)
  next
    case under: True
    show ?thesis
    proof (cases "pop_first (\<lambda>r. eligible now (heap s r)) (queue s)")
      case None
      with idle under assms show ?thesis by (auto simp: process_queue_idle)
    next
      case (Some p)
      obtain r rest where "p = (r, rest)" by (cases p)
      with Some idle under assms process_queue_send[OF idle under, of r rest res db_ok]
      show ?thesis by (auto split: prod.splits bool.splits)
    qed
  qed
qed

lemma process_queue_call_history:
  assumes "process_queue res db_ok now s = (s', Some (r, res'))"
  shows "notification_history s' =
     (if res = Ack
      then (notification_history s)
             (user_id (heap s r) \<mapsto> history_of s (user_id (heap s r)) @
                [\<lparr>h_type = notification_type (heap s r), h_timestamp = now,
                  h_job_id = job_id (heap s r)\<rparr>])
      else notification_history s)"
proof -
  from process_queue_call[OF assms] obtain rest where
    eq: "(s', Some (r, res)) =
       (case send_notification res db_ok r now
             (s\<lparr>processing := True,
                sent_messages := filter (\<lambda>msg. now - msg < 60) (sent_messages s),
                queue := rest\<rparr>) of
        (True, s3) \<Rightarrow>
          ((record_notification r now (s3\<lparr>total_sent := total_sent s3 + 1\<rparr>))
             \<lparr>processing := False\<rparr>, Some (r, res))
      | (False, s3) \<Rightarrow> ((requeue_job r 60 now s3)\<lparr>processing := False\<rparr>, Some (r, res)))"
    by blast
  define s2 where "s2 = s\<lparr>processing := True,
                sent_messages := filter (\<lambda>msg. now - msg < 60) (sent_messages s),
                queue := rest\<rparr>"
  obtain b s3 where sn: "send_notification res db_ok r now s2 = (b, s3)"
    by (cases "send_notification res db_ok r now s2")
  note fr = send_notification_frame[OF sn]
  show ?thesis
  proof (cases "res = Ack")
    case True
    with sn have s3: "s3 = s2\<lparr>sent_messages := sent_messages s2 @ [now]\<rparr>" and b: b
      by (simp_all add: send_notification_def)
    from eq sn b have "s' = (record_notification r now (s3\<lparr>total_sent := total_sent s3 + 1\<rparr>))
             \<lparr>processing := False\<rparr>" by (simp add: s2_def)
    then show ?thesis using True
      by (simp add: record_notification_def Let_def s3 s2_def history_of_def)
  next
    case False
    with fr have b: "\<not> b" by simp
    from eq sn b have "s' = (requeue_job r 60 now s3)\<lparr>processing := False\<rparr>"
      by (simp add: s2_def)
    then show ?thesis using False fr by (simp add: requeue_job_frame s2_def)
  qed
qed

text \<open>
  C5, as stated, fails. No provisional entry exists, and enqueueing makes none
  permanent: after a fan-out that accepts user 1 and enqueues the job, the history of
  user 1 is empty and the count of recent deliveries of that kind is 0.
\<close>

theorem enqueue_records_no_entry:
  "fst (create_notification sample_interpreter [1] golden_star NEW_GIFT HIGH 0 sample_engine) =
     Inr [(1, NEW_GIFT, 0)] \<and>
   queue (snd (create_notification sample_interpreter [1] golden_star NEW_GIFT HIGH 0
                 sample_engine)) = [0] \<and>
   history_of (snd (create_notification sample_interpreter [1] golden_star NEW_GIFT HIGH 0
                      sample_engine)) 1 = [] \<and>
   recent_count (snd (create_notification sample_interpreter [1] golden_star NEW_GIFT HIGH 0
                        sample_engine)) 1 NEW_GIFT 0 = 0"
  by (simp add: filter_eval recent_count_def)

text \<open>
  C5, amended. For every subscriber and notification kind, a fan-out consumes no
  frequency quota, whether the filter accepts or rejects and whether or not the
  render fails: \<open>create_notification\<close> leaves the subscriber's counted deliveries of the
  kind in the hour up to any clock reading from then on unchanged (it only drops
  entries older than an hour). The entry is recorded when the dispatcher's send of a
  job is acknowledged: that step appends one entry, with the job's kind, the clock
  reading and the job id, to the history of the job's user. A step whose send fails,
  or that sends nothing, leaves the histories unchanged.
\<close>

theorem frequency_entry_on_delivery:
  "(now \<le> now' \<longrightarrow>
      recent_count (snd (create_notification py uids g ntype prio now s)) u k now' =
      recent_count s u k now') \<and>
   (process_queue res db_ok now s = (s', Some (r, res')) \<and> res = Ack \<longrightarrow>
      notification_history s' =
        (notification_history s)
          (user_id (heap s r) \<mapsto> history_of s (user_id (heap s r)) @
             [\<lparr>h_type = notification_type (heap s r), h_timestamp = now,
               h_job_id = job_id (heap s r)\<rparr>])) \<and>
   (process_queue res db_ok now s = (s', c) \<and> (res \<noteq> Ack \<or> c = None) \<longrightarrow>
      notification_history s' = notification_history s)"
proof -
  have A: "now \<le> now' \<longrightarrow>
      recent_count (snd (create_notification py uids g ntype prio now s)) u k now' =
      recent_count s u k now'"
    using create_notification_recent by blast
  have B: "process_queue res db_ok now s = (s', Some (r, res')) \<and> res = Ack \<longrightarrow>
      notification_history s' =
        (notification_history s)
          (user_id (heap s r) \<mapsto> history_of s (user_id (heap s r)) @
             [\<lparr>h_type = notification_type (heap s r), h_timestamp = now,
               h_job_id = job_id (heap s r)\<rparr>])"
    using process_queue_call_history[of res db_ok now s s' r res'] by auto
  have C: "process_queue res db_ok now s = (s', c) \<and> (res \<noteq> Ack \<or> c = None) \<longrightarrow>
      notification_history s' = notification_history s"
  proof
    assume a: "process_queue res db_ok now s = (s', c) \<and> (res \<noteq> Ack \<or> c = None)"
    show "notification_history s' = notification_history s"
    proof (cases c)
      case None
      with a show ?thesis using process_queue_no_call_history by blast
    next
      case (Some p)
      obtain r0 res0 where "p = (r0, res0)" by (cases p)
      with Some a process_queue_call_history[of res db_ok now s s' r0 res0]
      show ?thesis by auto
    qed
  qed
  from A B C show ?thesis by (intro conjI)
qed

theorem frequency_entry_on_delivery_witness:
  "recent_count (snd (create_notification sample_interpreter [1, 2] golden_star NEW_GIFT HIGH 0
                        sample_engine)) 1 NEW_GIFT 5 = 0 \<and>
   history_of (fst (process_queue Ack True 5 (engine_with [sample_job 1 NORMAL 0]))) 1 =
     [\<lparr>h_type = NEW_GIFT, h_timestamp = 5, h_job_id = (1, NEW_GIFT, 0)\<rparr>] \<and>
   history_of (fst (process_queue OtherError True 5 (engine_with [sample_job 1 NORMAL 0]))) 1 =
     []"
  using frequency_entry_on_delivery
          [of 0 5 sample_interpreter "[1, 2]" golden_star NEW_GIFT HIGH sample_engine 1 NEW_GIFT]
        frequency_entry_on_delivery
          [of 0 0 sample_interpreter "[]" golden_star NEW_GIFT HIGH
              "engine_with [sample_job 1 NORMAL 0]" 1 NEW_GIFT Ack True
              "fst (process_queue Ack True 5 (engine_with [sample_job 1 NORMAL 0]))" 0 Ack]
        frequency_entry_on_delivery
          [of 0 0 sample_interpreter "[]" golden_star NEW_GIFT HIGH
              "engine_with [sample_job 1 NORMAL 0]" 1 NEW_GIFT OtherError True
              "fst (process_queue OtherError True 5 (engine_with [sample_job 1 NORMAL 0]))"
              0 OtherError "Some (0, OtherError)"]
  by (simp add: engine_eval filter_eval recent_count_def)

end
